theory Spec2Isabelle
  imports Complex_Main "HOL-Library.Sublist"
begin

section \<open>JavaScript strings\<close>

text \<open>
  A JavaScript string is a sequence of UTF-16 code units; \<open>length\<close> counts code units.
  Literals of the source that are plain ASCII are written \<open>u16 ''...''\<close>; every other code
  unit (and the quote characters) is written as its number.
\<close>

type_synonym cu = nat
type_synonym jsstring = "cu list"

definition u16 :: "string \<Rightarrow> jsstring" where
  "u16 = map of_char"

text \<open>\<open>String.prototype.includes\<close> and \<open>startsWith\<close>.\<close>

fun includes_str :: "jsstring \<Rightarrow> jsstring \<Rightarrow> bool" where
  "includes_str [] p = (p = [])"
| "includes_str (x # xs) p = (prefix p (x # xs) \<or> includes_str xs p)"

definition startsWith :: "jsstring \<Rightarrow> jsstring \<Rightarrow> bool" where
  "startsWith s p = prefix p s"

text \<open>
  White space and line terminators of ECMAScript: the characters that \<open>\s\<close> matches and
  that \<open>trim\<close> removes.
\<close>

definition is_space :: "cu \<Rightarrow> bool" where
  "is_space c \<longleftrightarrow>
     (9 \<le> c \<and> c \<le> 13) \<or> c = 32 \<or> c = 160 \<or> c = 5760 \<or> (8192 \<le> c \<and> c \<le> 8202) \<or>
     c = 8232 \<or> c = 8233 \<or> c = 8239 \<or> c = 8287 \<or> c = 12288 \<or> c = 65279"

definition trim :: "jsstring \<Rightarrow> jsstring" where
  "trim s = rev (dropWhile is_space (rev (dropWhile is_space s)))"

text \<open>
  \<open>toLowerCase\<close>. The analyzers only ever search the result for ASCII text, so what
  matters is which code units become ASCII: the letters A-Z, the Kelvin sign U+212A
  (which becomes k) and U+0130 (which becomes i followed by U+0307). Every other code
  unit outside ASCII is mapped by the platform to code units outside ASCII and is left
  in place here.
\<close>

definition lower_cu :: "cu \<Rightarrow> jsstring" where
  "lower_cu c =
     (if 65 \<le> c \<and> c \<le> 90 then [c + 32]
      else if c = 8490 then [107]
      else if c = 304 then [105, 775]
      else [c])"

definition toLowerCase :: "jsstring \<Rightarrow> jsstring" where
  "toLowerCase s = concat (map lower_cu s)"

text \<open>Decimal digits of a number, as template literals print it.\<close>

fun digits :: "nat \<Rightarrow> nat \<Rightarrow> jsstring" where
  "digits 0 n = []"
| "digits (Suc fuel) n =
     (if n < 10 then [48 + n] else digits fuel (n div 10) @ [48 + n mod 10])"

definition show_nat :: "nat \<Rightarrow> jsstring" where
  "show_nat n = digits (Suc n) n"

definition show_int :: "int \<Rightarrow> jsstring" where
  "show_int i = (if i < 0 then 45 # show_nat (nat (- i)) else show_nat (nat i))"

text \<open>
  The value of a string of decimal digits, as \<open>parseInt\<close> reads the text that \<open>\d+\<close>
  matched. The Number that \<open>parseInt\<close> returns is this value rounded to a double; the
  rounding is monotone and the constants it is compared with (12, 500, 31536000) are
  doubles, so every comparison of the source has the same outcome on the exact value.
  The fields \<open>width\<close> and \<open>height\<close> of an image of the inventory hold the exact value
  where the source holds the nearest double; the two differ only for values above
  \<open>2^53\<close>, and no rule of the analyzers reads these fields.
\<close>

definition parseInt :: "jsstring \<Rightarrow> nat" where
  "parseInt ds = foldl (\<lambda>n d. 10 * n + (d - 48)) 0 ds"

section \<open>Regular expressions\<close>

text \<open>
  The patterns of the source use literals, character classes, sequence, alternation,
  greedy and lazy repetition of a single class, optional groups, one capturing group and
  negative lookahead. Matching is the backtracking search of ECMAScript: \<open>ms r (s, c)\<close>
  lists every way \<open>r\<close> can match a prefix of \<open>s\<close>, in the order in which the engine
  tries them, as the text left over and the value of capture group 1. The engine takes
  the first one.

  All patterns with letters carry the \<open>i\<close> flag; \<open>Lit\<close> compares as that flag does
  (\<open>canon\<close>: upper-casing, which never identifies a code unit outside ASCII with an
  ASCII one). Classes are given as predicates with the flag already applied.
\<close>

definition canon :: "cu \<Rightarrow> cu" where
  "canon c = (if 97 \<le> c \<and> c \<le> 122 then c - 32 else c)"

fun lit :: "jsstring \<Rightarrow> jsstring \<Rightarrow> bool" where
  "lit [] s = True"
| "lit (p # ps) [] = False"
| "lit (p # ps) (x # xs) = (canon p = canon x \<and> lit ps xs)"

fun run :: "(cu \<Rightarrow> bool) \<Rightarrow> jsstring \<Rightarrow> nat" where
  "run P [] = 0"
| "run P (x # xs) = (if P x then Suc (run P xs) else 0)"

datatype re =
    Lit jsstring               \<comment> \<open>literal text\<close>
  | Cls "cu \<Rightarrow> bool"           \<comment> \<open>one code unit of a class\<close>
  | Seq re re
  | Alt re re                  \<comment> \<open>\<open>a|b\<close>\<close>
  | Many nat "cu \<Rightarrow> bool"      \<comment> \<open>greedy \<open>X{n,}\<close>: \<open>X*\<close> is \<open>Many 0\<close>, \<open>X+\<close> is \<open>Many 1\<close>\<close>
  | Few "cu \<Rightarrow> bool"           \<comment> \<open>lazy \<open>X*?\<close>\<close>
  | Opt re                     \<comment> \<open>greedy \<open>(?:r)?\<close>\<close>
  | Cap re                     \<comment> \<open>capture group 1\<close>
  | NLook re                   \<comment> \<open>\<open>(?!r)\<close>\<close>

type_synonym mstate = "jsstring \<times> jsstring option"

fun ms :: "re \<Rightarrow> mstate \<Rightarrow> mstate list" where
  "ms (Lit p) (s, c) = (if lit p s then [(drop (length p) s, c)] else [])"
| "ms (Cls P) (s, c) = (case s of [] \<Rightarrow> [] | x # t \<Rightarrow> if P x then [(t, c)] else [])"
| "ms (Seq a b) sc = concat (map (ms b) (ms a sc))"
| "ms (Alt a b) sc = ms a sc @ ms b sc"
| "ms (Many n P) (s, c) = map (\<lambda>k. (drop k s, c)) (rev [n ..< Suc (run P s)])"
| "ms (Few P) (s, c) = map (\<lambda>k. (drop k s, c)) [0 ..< Suc (run P s)]"
| "ms (Opt a) sc = ms a sc @ [sc]"
| "ms (Cap a) (s, c) =
     map (\<lambda>(t, _). (t, Some (take (length s - length t) s))) (ms a (s, c))"
| "ms (NLook a) sc = (if ms a sc = [] then [sc] else [])"

text \<open>
  A match at the start of \<open>s\<close>: its length and capture group 1 (\<open>None\<close>: the group did
  not take part, \<open>undefined\<close> in the source).
\<close>

definition match_at :: "re \<Rightarrow> jsstring \<Rightarrow> (nat \<times> jsstring option) option" where
  "match_at r s =
     (case ms r (s, None) of [] \<Rightarrow> None | (t, c) # _ \<Rightarrow> Some (length s - length t, c))"

text \<open>
  \<open>s.match(r)\<close> for a pattern without the \<open>g\<close> flag: the leftmost match, as
  \<open>(match[0], match[1])\<close>, or \<open>None\<close> for \<open>null\<close>.
\<close>

fun match :: "re \<Rightarrow> jsstring \<Rightarrow> (jsstring \<times> jsstring option) option" where
  "match r [] = (case match_at r [] of None \<Rightarrow> None | Some (n, c) \<Rightarrow> Some ([], c))"
| "match r (x # xs) =
     (case match_at r (x # xs) of
        None \<Rightarrow> match r xs
      | Some (n, c) \<Rightarrow> Some (take n (x # xs), c))"

definition test :: "re \<Rightarrow> jsstring \<Rightarrow> bool" where
  "test r s = (match r s \<noteq> None)"

text \<open>
  \<open>s.matchAll(r)\<close> and \<open>s.match(r) || []\<close> for a pattern with the \<open>g\<close> flag: all
  matches from left to right, each search resuming where the last match ended (one code
  unit further after an empty match).
\<close>

function matchAll :: "re \<Rightarrow> jsstring \<Rightarrow> (jsstring \<times> jsstring option) list" where
  "matchAll r [] = (case match_at r [] of None \<Rightarrow> [] | Some (n, c) \<Rightarrow> [([], c)])"
| "matchAll r (x # xs) =
     (case match_at r (x # xs) of
        None \<Rightarrow> matchAll r xs
      | Some (n, c) \<Rightarrow> (take n (x # xs), c) # matchAll r (drop (max 1 n) (x # xs)))"
  by pat_completeness auto
termination
  by (relation "measure (\<lambda>(r, s). length s)") auto

definition match_g :: "re \<Rightarrow> jsstring \<Rightarrow> jsstring list" where
  "match_g r s = map fst (matchAll r s)"

text \<open>\<open>s.replace(r, '')\<close> for a pattern with the \<open>g\<close> flag.\<close>

function remove_all :: "re \<Rightarrow> jsstring \<Rightarrow> jsstring" where
  "remove_all r [] = []"
| "remove_all r (x # xs) =
     (case match_at r (x # xs) of
        None \<Rightarrow> x # remove_all r xs
      | Some (n, c) \<Rightarrow>
          (if n = 0 then x # remove_all r xs else remove_all r (drop n (x # xs))))"
  by pat_completeness auto
termination
  by (relation "measure (\<lambda>(r, s). length s)") auto

subsection \<open>Character classes\<close>

definition quote :: "cu \<Rightarrow> bool" where       \<comment> \<open>\<open>["']\<close>\<close>
  "quote c \<longleftrightarrow> c = 34 \<or> c = 39"

definition not_quote :: "cu \<Rightarrow> bool" where   \<comment> \<open>\<open>[^"']\<close>\<close>
  "not_quote c \<longleftrightarrow> c \<noteq> 34 \<and> c \<noteq> 39"

definition not_gt :: "cu \<Rightarrow> bool" where      \<comment> \<open>\<open>[^>]\<close>\<close>
  "not_gt c \<longleftrightarrow> c \<noteq> 62"

definition digit :: "cu \<Rightarrow> bool" where       \<comment> \<open>\<open>\d\<close>\<close>
  "digit c \<longleftrightarrow> 48 \<le> c \<and> c \<le> 57"

definition any_cu :: "cu \<Rightarrow> bool" where      \<comment> \<open>\<open>[\s\S]\<close>\<close>
  "any_cu c \<longleftrightarrow> True"

definition dot :: "cu \<Rightarrow> bool" where         \<comment> \<open>\<open>.\<close>: anything but a line terminator\<close>
  "dot c \<longleftrightarrow> c \<noteq> 10 \<and> c \<noteq> 13 \<and> c \<noteq> 8232 \<and> c \<noteq> 8233"

text \<open>Sequence of several parts, and the recurring \<open>name=["']value["']\<close>.\<close>

fun seqs :: "re list \<Rightarrow> re" where
  "seqs [] = Lit []"
| "seqs [r] = r"
| "seqs (r # rs) = Seq r (seqs rs)"

definition attr :: "string \<Rightarrow> string \<Rightarrow> re" where
  "attr name v = seqs [Lit (u16 name), Lit [61], Cls quote, Lit (u16 v), Cls quote]"

section \<open>Data model\<close>

text \<open>
  The records that \<open>extractResources\<close> pushes. A field that the source fills with
  \<open>x && y\<close> holds \<open>null\<close> or a boolean and is a \<open>bool option\<close>; \<open>truthy\<close> and
  \<open>truthy_b\<close> are the tests that \<open>!v\<close> and \<open>v && ...\<close> make. The source names the
  address field \<open>src\<close> in all three records and the lazy-loading flag
  \<open>hasLazyLoading\<close> in two of them; here they are \<open>src\<close>, \<open>imgSrc\<close>, \<open>frameSrc\<close> and
  \<open>hasLazyLoading\<close>, \<open>frameLazy\<close>.
\<close>

definition truthy :: "jsstring option \<Rightarrow> bool" where
  "truthy v = (case v of None \<Rightarrow> False | Some s \<Rightarrow> s \<noteq> [])"

definition truthy_b :: "bool option \<Rightarrow> bool" where
  "truthy_b v = (case v of None \<Rightarrow> False | Some b \<Rightarrow> b)"

record ScriptRef =
  src :: "jsstring option"
  isInline :: bool
  isAsync :: bool
  isDefer :: bool
  isModule :: bool

record StylesheetRef =
  href :: jsstring
  isPreload :: bool

record ImageRef =
  imgSrc :: "jsstring option"
  hasAlt :: bool
  altText :: "jsstring option"
  hasEmptyAlt :: "bool option"
  hasDimensions :: bool
  width :: "nat option"
  height :: "nat option"
  hasLazyLoading :: "bool option"
  hasSrcset :: bool
  isWebP :: "bool option"
  isAvif :: "bool option"
  isModernFormat :: "bool option"

record IframeRef =
  frameSrc :: "jsstring option"
  frameLazy :: bool

record resources =
  scripts :: "ScriptRef list"
  stylesheets :: "StylesheetRef list"
  images :: "ImageRef list"
  fonts :: "unit list"
  iframes :: "IframeRef list"

text \<open>
  A finding is \<open>{ severity: ..., message }\<close> when the source pushes it to \<open>issues\<close> and
  \<open>{ type: 'success', message }\<close> when it pushes it to \<open>details\<close>.
\<close>

datatype level = Success | Info | Warning | Critical

datatype finding =
    With_severity level jsstring
  | With_type level jsstring

record 'm DimensionResult =
  score :: int
  details :: "finding list"
  metrics :: 'm

datatype error = TypeError | SyntaxError

section \<open>Resource extractor\<close>

text \<open>The text of capture group 1 of a match whose pattern has the group on every path.\<close>

definition group1 :: "jsstring \<times> jsstring option \<Rightarrow> jsstring" where
  "group1 m = (case snd m of None \<Rightarrow> [] | Some v \<Rightarrow> v)"

definition script_re :: re where
  \<comment> \<open>\<open>/<script[^>]*(?:src=["']([^"']+)["'])?[^>]*>/gi\<close>\<close>
  "script_re = seqs [Lit (u16 ''<script''), Many 0 not_gt,
     Opt (seqs [Lit (u16 ''src=''), Cls quote, Cap (Many 1 not_quote), Cls quote]),
     Many 0 not_gt, Lit [62]]"

definition stylesheet_re :: re where
  \<comment> \<open>\<open>/<link[^>]*rel=["']stylesheet["'][^>]*href=["']([^"']+)["'][^>]*>/gi\<close>\<close>
  "stylesheet_re = seqs [Lit (u16 ''<link''), Many 0 not_gt, attr ''rel'' ''stylesheet'',
     Many 0 not_gt, Lit (u16 ''href=''), Cls quote, Cap (Many 1 not_quote), Cls quote,
     Many 0 not_gt, Lit [62]]"

definition tag_re :: "string \<Rightarrow> re" where
  \<comment> \<open>\<open>/<name[^>]*>/gi\<close>\<close>
  "tag_re name = seqs [Lit (60 # u16 name), Many 0 not_gt, Lit [62]]"

definition attr_value_re :: "string \<Rightarrow> nat \<Rightarrow> re" where
  \<comment> \<open>\<open>/name=["']([^"']+)["']/i\<close> for \<open>n = 1\<close>, with \<open>*\<close> in place of \<open>+\<close> for \<open>n = 0\<close>\<close>
  "attr_value_re name n =
     seqs [Lit (u16 name), Lit [61], Cls quote, Cap (Many n not_quote), Cls quote]"

definition number_attr_re :: "string \<Rightarrow> re" where
  \<comment> \<open>\<open>/name=["']?(\d+)/i\<close>\<close>
  "number_attr_re name =
     seqs [Lit (u16 name), Lit [61], Opt (Cls quote), Cap (Many 1 digit)]"

definition modern_format_re :: re where
  \<comment> \<open>\<open>/\.(webp|avif)/i\<close>\<close>
  "modern_format_re = Seq (Lit [46]) (Alt (Lit (u16 ''webp'')) (Lit (u16 ''avif'')))"

definition extract_script :: "jsstring \<times> jsstring option \<Rightarrow> ScriptRef" where
  "extract_script m =
     \<lparr> src = (if truthy (snd m) then snd m else None),
       isInline = (\<not> truthy (snd m)),
       isAsync = test (Lit (u16 ''async'')) (fst m),
       isDefer = test (Lit (u16 ''defer'')) (fst m),
       isModule = test (attr ''type'' ''module'') (fst m) \<rparr>"

definition extract_stylesheet :: "jsstring \<times> jsstring option \<Rightarrow> StylesheetRef" where
  "extract_stylesheet m =
     \<lparr> href = group1 m, isPreload = test (attr ''rel'' ''preload'') (fst m) \<rparr>"

definition extract_image :: "jsstring \<times> jsstring option \<Rightarrow> ImageRef" where
  "extract_image m =
     (let srcMatch = match (attr_value_re ''src'' 1) (fst m);
          altMatch = match (attr_value_re ''alt'' 0) (fst m);
          widthMatch = match (number_attr_re ''width'') (fst m);
          heightMatch = match (number_attr_re ''height'') (fst m);
          loadingMatch = match (attr_value_re ''loading'' 1) (fst m)
      in \<lparr> imgSrc = map_option group1 srcMatch,
           hasAlt = (altMatch \<noteq> None),
           altText = map_option group1 altMatch,
           hasEmptyAlt = map_option (\<lambda>a. group1 a = []) altMatch,
           hasDimensions = (widthMatch \<noteq> None \<and> heightMatch \<noteq> None),
           width = map_option (\<lambda>w. parseInt (group1 w)) widthMatch,
           height = map_option (\<lambda>h. parseInt (group1 h)) heightMatch,
           hasLazyLoading = map_option (\<lambda>l. group1 l = u16 ''lazy'') loadingMatch,
           hasSrcset = test (Lit (u16 ''srcset='')) (fst m),
           isWebP = map_option (\<lambda>s. test (Lit (u16 ''.webp'')) (group1 s)) srcMatch,
           isAvif = map_option (\<lambda>s. test (Lit (u16 ''.avif'')) (group1 s)) srcMatch,
           isModernFormat = map_option (\<lambda>s. test modern_format_re (group1 s)) srcMatch \<rparr>)"

definition extract_iframe :: "jsstring \<times> jsstring option \<Rightarrow> IframeRef" where
  "extract_iframe m =
     \<lparr> frameSrc = map_option group1 (match (attr_value_re ''src'' 1) (fst m)),
       frameLazy = test (attr ''loading'' ''lazy'') (fst m) \<rparr>"

text \<open>The source's second parameter, \<open>baseUrl\<close>, is never read.\<close>

definition extractResources :: "jsstring \<Rightarrow> resources" where
  "extractResources html =
     \<lparr> scripts = map extract_script (matchAll script_re html),
       stylesheets = map extract_stylesheet (matchAll stylesheet_re html),
       images = map extract_image (matchAll (tag_re ''img'') html),
       fonts = [],
       iframes = map extract_iframe (matchAll (tag_re ''iframe'') html) \<rparr>"

section \<open>The running score of an analyzer\<close>

text \<open>
  Every analyzer keeps three locals: \<open>score\<close>, \<open>details\<close> and \<open>issues\<close>. A block of
  the source is a function on them. \<open>deduct n\<close> is \<open>score -= n\<close>, \<open>issue l m\<close> is
  \<open>issues.push({ severity: l, message: m })\<close> and \<open>detail m\<close> is
  \<open>details.push({ type: 'success', message: m })\<close>.

  \<open>acc_log\<close> is not a local of the source. It records the run: every finding that is
  pushed, to either list, is also appended to it, so it lists the findings of a run in
  the order of their insertion. Nothing reads it.
\<close>

record acc =
  acc_score :: int
  acc_details :: "finding list"
  acc_issues :: "finding list"
  acc_log :: "finding list"

definition start :: acc where
  "start = \<lparr> acc_score = 100, acc_details = [], acc_issues = [], acc_log = [] \<rparr>"

definition deduct :: "int \<Rightarrow> acc \<Rightarrow> acc" where
  "deduct n st = st \<lparr> acc_score := acc_score st - n \<rparr>"

definition issue :: "level \<Rightarrow> jsstring \<Rightarrow> acc \<Rightarrow> acc" where
  "issue l m st =
     st \<lparr> acc_issues := acc_issues st @ [With_severity l m],
          acc_log := acc_log st @ [With_severity l m] \<rparr>"

definition detail :: "jsstring \<Rightarrow> acc \<Rightarrow> acc" where
  "detail m st =
     st \<lparr> acc_details := acc_details st @ [With_type Success m],
          acc_log := acc_log st @ [With_type Success m] \<rparr>"

text \<open>
  The object every analyzer returns: \<open>score: Math.max(0, Math.min(100, score))\<close> and
  \<open>details: [...details, ...issues]\<close>.
\<close>

definition finish :: "acc \<Rightarrow> 'm \<Rightarrow> 'm DimensionResult" where
  "finish st m =
     \<lparr> score = max 0 (min 100 (acc_score st)),
       details = acc_details st @ acc_issues st,
       metrics = m \<rparr>"

text \<open>\<open>Math.round(n / 1024)\<close> for a length \<open>n\<close>: the division is exact in doubles.\<close>

definition round_kb :: "nat \<Rightarrow> nat" where
  "round_kb n = (n + 512) div 1024"

section \<open>Performance analyzer\<close>

record url =
  protocol :: jsstring
  hostname :: jsstring

record perf_metrics =
  perf_responseTime :: int
  perf_htmlSize :: nat
  perf_totalScripts :: nat
  perf_blockingScripts :: nat
  perf_totalStylesheets :: nat
  perf_totalImages :: nat

definition perf_response_time :: "int \<Rightarrow> acc \<Rightarrow> acc" where
  "perf_response_time responseTime st =
     (if responseTime > 3000 then
        issue Critical (u16 ''Veldig treg server-respons: '' @ show_int (responseTime) @ u16 ''ms (b'' @ [248] @ u16 ''r v'' @ [230] @ u16 ''re under 600ms)'')
          (deduct 25 st)
      else if responseTime > 1500 then
        issue Warning (u16 ''Treg server-respons: '' @ show_int (responseTime) @ u16 ''ms (b'' @ [248] @ u16 ''r v'' @ [230] @ u16 ''re under 600ms)'')
          (deduct 15 st)
      else if responseTime > 600 then
        issue Info (u16 ''Server-respons kan forbedres: '' @ show_int (responseTime) @ u16 ''ms'') (deduct 8 st)
      else detail (u16 ''Rask server-respons: '' @ show_int (responseTime) @ u16 ''ms'') st)"

definition perf_html_size :: "nat \<Rightarrow> acc \<Rightarrow> acc" where
  "perf_html_size htmlSize st =
     (if htmlSize > 500000 then
        issue Critical (u16 ''HTML-dokumentet er for stort: '' @ show_nat (round_kb htmlSize) @ u16 ''KB (b'' @ [248] @ u16 ''r v'' @ [230] @ u16 ''re under 100KB)'')
          (deduct 15 st)
      else if htmlSize > 200000 then
        issue Warning (u16 ''HTML-dokumentet er stort: '' @ show_nat (round_kb htmlSize) @ u16 ''KB'') (deduct 10 st)
      else if htmlSize > 100000 then
        issue Info (u16 ''HTML-dokumentet er litt stort: '' @ show_nat (round_kb htmlSize) @ u16 ''KB'') (deduct 5 st)
      else st)"

definition perf_blocking :: "nat \<Rightarrow> acc \<Rightarrow> acc" where
  "perf_blocking blockingScripts st =
     (if blockingScripts > 5 then
        issue Critical (show_nat (blockingScripts) @ u16 '' render-blokkerende scripts (bruk async/defer)'')
          (deduct 12 st)
      else if blockingScripts > 2 then
        issue Warning (show_nat (blockingScripts) @ u16 '' render-blokkerende scripts'') (deduct 6 st)
      else st)"

definition perf_total_scripts :: "nat \<Rightarrow> acc \<Rightarrow> acc" where
  "perf_total_scripts totalScripts st =
     (if totalScripts > 25 then
        issue Warning (u16 ''For mange scripts: '' @ show_nat (totalScripts) @ u16 '' (b'' @ [248] @ u16 ''r konsolideres)'') (deduct 8 st)
      else if totalScripts > 15 then
        issue Info (u16 ''Mange scripts: '' @ show_nat (totalScripts)) (deduct 4 st)
      else st)"

definition perf_stylesheets :: "nat \<Rightarrow> acc \<Rightarrow> acc" where
  "perf_stylesheets externalStylesheets st =
     (if externalStylesheets > 8 then
        issue Warning (u16 ''For mange CSS-filer: '' @ show_nat (externalStylesheets) @ u16 '' (b'' @ [248] @ u16 ''r kombineres)'')
          (deduct 8 st)
      else if externalStylesheets > 4 then
        issue Info (u16 ''Flere CSS-filer: '' @ show_nat (externalStylesheets)) (deduct 4 st)
      else st)"

definition perf_inline_css :: "nat \<Rightarrow> acc \<Rightarrow> acc" where
  "perf_inline_css inlineCSSSize st =
     (if inlineCSSSize > 50000 then
        issue Warning (u16 ''Mye inline CSS ('' @ show_nat (round_kb inlineCSSSize) @ u16 ''KB) - b'' @ [248] @ u16 ''r flyttes til eksterne filer'')
          (deduct 7 st)
      else st)"

definition style_block_re :: re where
  \<comment> \<open>\<open>/<style[^>]*>([\s\S]*?)<\/style>/gi\<close>\<close>
  "style_block_re = seqs [Lit (u16 ''<style''), Many 0 not_gt, Lit [62], Cap (Few any_cu),
     Lit (u16 ''</style>'')]"

definition estimateInlineCSS :: "jsstring \<Rightarrow> nat" where
  "estimateInlineCSS html = foldl (\<lambda>total m. total + length m) 0 (match_g style_block_re html)"

text \<open>
  The image block. \<open>images.indexOf(i) > 2\<close> is the position of the record in the
  inventory: every record is a fresh object.
\<close>

definition perf_images :: "ImageRef list \<Rightarrow> acc \<Rightarrow> acc" where
  "perf_images imgs st =
     (let imagesWithoutDimensions = length (filter (\<lambda>i. \<not> hasDimensions i) imgs);
          imagesWithoutLazyLoad =
            length (filter (\<lambda>(k, i). \<not> truthy_b (hasLazyLoading i) \<and> k > 2) (enumerate 0 imgs));
          imagesWithoutModernFormat =
            length (filter (\<lambda>i. truthy (imgSrc i) \<and> \<not> truthy_b (isModernFormat i)) imgs);
          imagesWithoutSrcset = length (filter (\<lambda>i. \<not> hasSrcset i) imgs);
          st1 = (if imagesWithoutDimensions > 3 then
                   issue Warning (show_nat (imagesWithoutDimensions) @ u16 '' bilder mangler width/height (for'' @ [229] @ u16 ''rsaker layout shift)'')
                     (deduct 6 st)
                 else st);
          st2 = (if imagesWithoutLazyLoad > 5 then
                   issue Warning (show_nat (imagesWithoutLazyLoad) @ u16 '' bilder under fold mangler lazy loading'')
                     (deduct 5 st1)
                 else st1);
          st3 = (if imagesWithoutModernFormat > 5 \<and> length imgs > 3 then
                   issue Info (show_nat (imagesWithoutModernFormat) @ u16 '' bilder bruker ikke moderne formater (WebP/AVIF)'')
                     (deduct 5 st2)
                 else st2);
          st4 = (if imagesWithoutSrcset > 5 \<and> length imgs > 3 then
                   issue Info (show_nat (imagesWithoutSrcset) @ u16 '' bilder mangler responsive srcset'')
                     (deduct 4 st3)
                 else st3)
      in if length imgs > 0 then st4 else st)"

definition critical_css_re :: re where
  \<comment> \<open>\<open>/<style[^>]*>[\s\S]*?(body|html|header|nav|hero|main)/i\<close>\<close>
  "critical_css_re = seqs [Lit (u16 ''<style''), Many 0 not_gt, Lit [62], Few any_cu,
     Alt (Lit (u16 ''body'')) (Alt (Lit (u16 ''html'')) (Alt (Lit (u16 ''header''))
       (Alt (Lit (u16 ''nav'')) (Alt (Lit (u16 ''hero'')) (Lit (u16 ''main''))))))]"

definition link_rel_re :: "string \<Rightarrow> re" where
  \<comment> \<open>\<open>/<link[^>]*rel=["']v["']/i\<close>\<close>
  "link_rel_re v = seqs [Lit (u16 ''<link''), Many 0 not_gt, attr ''rel'' v]"

definition perf_critical_css :: "bool \<Rightarrow> nat \<Rightarrow> acc \<Rightarrow> acc" where
  "perf_critical_css hasCriticalCSS externalStylesheets st =
     (if \<not> hasCriticalCSS \<and> externalStylesheets > 0 then
        issue Info (u16 ''Mangler kritisk inline CSS for raskere first paint'') (deduct 3 st)
      else st)"

definition perf_preconnect :: "bool \<Rightarrow> bool \<Rightarrow> acc \<Rightarrow> acc" where
  "perf_preconnect hasPreconnect hasDNSPrefetch st =
     (if \<not> hasPreconnect \<and> \<not> hasDNSPrefetch then
        issue Info (u16 ''Mangler preconnect/dns-prefetch for tredjepartsressurser'') (deduct 2 st)
      else st)"

text \<open>
  The third-party check calls \<open>new URL(html)\<close> inside the filter, for every script
  whose \<open>src\<close> is set and does not start with a slash. The URL parser belongs to the
  platform and is a parameter: \<open>None\<close> is its \<open>TypeError\<close>.
\<close>

definition is_third_party ::
  "(jsstring \<Rightarrow> url option) \<Rightarrow> jsstring \<Rightarrow> ScriptRef \<Rightarrow> error + bool" where
  "is_third_party new_URL html s =
     (case src s of
        None \<Rightarrow> Inr False
      | Some u \<Rightarrow>
          if u = [] then Inr False
          else if startsWith u [47] then Inr False
          else (case new_URL html of
                  None \<Rightarrow> Inl TypeError
                | Some parsed \<Rightarrow> Inr (\<not> includes_str u (hostname parsed))))"

fun filter_e :: "('a \<Rightarrow> error + bool) \<Rightarrow> 'a list \<Rightarrow> error + 'a list" where
  "filter_e p [] = Inr []"
| "filter_e p (x # xs) =
     (case p x of
        Inl e \<Rightarrow> Inl e
      | Inr b \<Rightarrow>
          (case filter_e p xs of
             Inl e \<Rightarrow> Inl e
           | Inr ys \<Rightarrow> Inr (if b then x # ys else ys)))"

definition perf_third_party :: "nat \<Rightarrow> acc \<Rightarrow> acc" where
  "perf_third_party thirdPartyScripts st =
     (if thirdPartyScripts > 10 then
        issue Warning (u16 ''Mange tredjepartscripts: '' @ show_nat (thirdPartyScripts) @ u16 '' (p'' @ [229] @ u16 ''virker ytelse)'')
          (deduct 5 st)
      else st)"

definition perf_iframes :: "nat \<Rightarrow> acc \<Rightarrow> acc" where
  "perf_iframes iframesWithoutLazy st =
     (if iframesWithoutLazy > 0 then
        issue Info (show_nat (iframesWithoutLazy) @ u16 '' iframes mangler lazy loading'') (deduct 3 st)
      else st)"

text \<open>
  The constants \<open>inlineScripts\<close>, \<open>hasPreload\<close> and \<open>hasGzip\<close> of the source are
  computed and never read; they are left out.

  \<open>perf_run\<close> is the body of \<open>analyzePerformance\<close> up to its \<open>return\<close>: the blocks
  of the source in their order, applied to the locals. The image block is a parameter,
  so that the run can be compared with a run that has no image block;
  \<open>analyzePerformance\<close> runs it with \<open>perf_images\<close>, the image block of the source.
\<close>

definition perf_run ::
  "(ImageRef list \<Rightarrow> acc \<Rightarrow> acc) \<Rightarrow> (jsstring \<Rightarrow> url option) \<Rightarrow> int \<Rightarrow> jsstring \<Rightarrow>
     resources \<Rightarrow> error + acc" where
  "perf_run image_block new_URL responseTime html res =
     (let htmlSize = length html;
          totalScripts = length (scripts res);
          blockingScripts =
            length (filter (\<lambda>s. \<not> isInline s \<and> \<not> isAsync s \<and> \<not> isDefer s) (scripts res));
          externalStylesheets = length (stylesheets res);
          inlineCSSSize = estimateInlineCSS html;
          hasCriticalCSS = test critical_css_re html;
          hasPreconnect = test (link_rel_re ''preconnect'') html;
          hasDNSPrefetch = test (link_rel_re ''dns-prefetch'') html;
          st = perf_preconnect hasPreconnect hasDNSPrefetch
                (perf_critical_css hasCriticalCSS externalStylesheets
                (image_block (images res)
                (perf_inline_css inlineCSSSize
                (perf_stylesheets externalStylesheets
                (perf_total_scripts totalScripts
                (perf_blocking blockingScripts
                (perf_html_size htmlSize
                (perf_response_time responseTime start))))))))
      in case filter_e (is_third_party new_URL html) (scripts res) of
           Inl e \<Rightarrow> Inl e
         | Inr thirdParty \<Rightarrow>
             Inr (perf_iframes (length (filter (\<lambda>i. \<not> frameLazy i) (iframes res)))
                   (perf_third_party (length thirdParty) st)))"

definition perf_locals ::
  "(jsstring \<Rightarrow> url option) \<Rightarrow> int \<Rightarrow> jsstring \<Rightarrow> resources \<Rightarrow> error + acc" where
  "perf_locals new_URL responseTime html res = perf_run perf_images new_URL responseTime html res"

definition analyzePerformance ::
  "(jsstring \<Rightarrow> url option) \<Rightarrow> int \<Rightarrow> jsstring \<Rightarrow> resources \<Rightarrow>
     error + perf_metrics DimensionResult" where
  "analyzePerformance new_URL responseTime html res =
     (case perf_locals new_URL responseTime html res of
        Inl e \<Rightarrow> Inl e
      | Inr st \<Rightarrow>
          Inr (finish st
            \<lparr> perf_responseTime = responseTime,
              perf_htmlSize = round_kb (length html),
              perf_totalScripts = length (scripts res),
              perf_blockingScripts =
                length (filter (\<lambda>s. \<not> isInline s \<and> \<not> isAsync s \<and> \<not> isDefer s) (scripts res)),
              perf_totalStylesheets =
                length (stylesheets res) + length (match_g (tag_re ''style'') html),
              perf_totalImages = length (images res) \<rparr>))"

section \<open>SEO analyzer\<close>

record seo_metrics =
  seo_titleLength :: nat
  seo_descriptionLength :: nat
  seo_h1Count :: nat
  seo_h2Count :: nat
  seo_imagesWithoutAlt :: nat
  seo_hasStructuredData :: bool
  seo_hasOpenGraph :: bool

definition title_re :: re where
  \<comment> \<open>\<open>/<title[^>]*>([\s\S]*?)<\/title>/i\<close>\<close>
  "title_re = seqs [Lit (u16 ''<title''), Many 0 not_gt, Lit [62], Cap (Few any_cu),
     Lit (u16 ''</title>'')]"

definition seo_title :: "(jsstring \<times> jsstring option) option \<Rightarrow> acc \<Rightarrow> acc" where
  "seo_title titleMatch st =
     (case titleMatch of
        None \<Rightarrow> issue Critical (u16 ''Mangler title-tag'') (deduct 15 st)
      | Some m \<Rightarrow>
          (let title = trim (group1 m);
               st1 = (if length title < 10 then
                        issue Warning (u16 ''Title er for kort: '' @ show_nat (length title) @ u16 '' tegn (anbefalt 50-60)'')
                          (deduct 10 st)
                      else if length title > 70 then
                        issue Warning (u16 ''Title er for lang: '' @ show_nat (length title) @ u16 '' tegn (anbefalt 50-60)'')
                          (deduct 5 st)
                      else if length title \<ge> 50 \<and> length title \<le> 60 then
                        detail (u16 ''Optimal title-lengde: '' @ show_nat (length title) @ u16 '' tegn'') st
                      else st)
           in if \<not> includes_str title [124] \<and> \<not> includes_str title [45] \<and>
                 \<not> includes_str title [8211] then
                issue Info (u16 ''Title mangler tydelig struktur (keyword | brand)'') st1
              else st1))"

definition description_re :: re where
  \<comment> \<open>\<open>/<meta[^>]*name=["']description["'][^>]*content=["']([^"']*)["']/i\<close>\<close>
  "description_re = seqs [Lit (u16 ''<meta''), Many 0 not_gt, attr ''name'' ''description'',
     Many 0 not_gt, Lit (u16 ''content=''), Cls quote, Cap (Many 0 not_quote), Cls quote]"

definition description_re2 :: re where
  \<comment> \<open>\<open>/<meta[^>]*content=["']([^"']*)["'][^>]*name=["']description["']/i\<close>\<close>
  "description_re2 = seqs [Lit (u16 ''<meta''), Many 0 not_gt, Lit (u16 ''content=''),
     Cls quote, Cap (Many 0 not_quote), Cls quote, Many 0 not_gt,
     attr ''name'' ''description'']"

definition seo_description :: "(jsstring \<times> jsstring option) option \<Rightarrow> acc \<Rightarrow> acc" where
  "seo_description descMatch st =
     (case descMatch of
        None \<Rightarrow> issue Critical (u16 ''Mangler meta description'') (deduct 12 st)
      | Some m \<Rightarrow>
          (let desc = group1 m
           in if length desc < 70 then
                issue Warning (u16 ''Meta description er for kort: '' @ show_nat (length desc) @ u16 '' tegn (anbefalt 150-160)'')
                  (deduct 6 st)
              else if length desc > 160 then
                issue Info (u16 ''Meta description er litt lang: '' @ show_nat (length desc) @ u16 '' tegn (kan bli avkortet)'')
                  (deduct 3 st)
              else if length desc \<ge> 140 \<and> length desc \<le> 160 then
                detail (u16 ''Optimal meta description: '' @ show_nat (length desc) @ u16 '' tegn'') st
              else st))"

definition h1_block_re :: re where
  \<comment> \<open>\<open>/<h1[^>]*>([\s\S]*?)<\/h1>/gi\<close>\<close>
  "h1_block_re = seqs [Lit (u16 ''<h1''), Many 0 not_gt, Lit [62], Cap (Few any_cu),
     Lit (u16 ''</h1>'')]"

definition seo_h1 :: "nat \<Rightarrow> acc \<Rightarrow> acc" where
  "seo_h1 h1Count st =
     (if h1Count = 0 then issue Critical (u16 ''Mangler H1-overskrift'') (deduct 10 st)
      else if h1Count > 1 then
        issue Warning (u16 ''Flere H1-overskrifter: '' @ show_nat (h1Count) @ u16 '' (b'' @ [248] @ u16 ''r kun ha '' @ [233] @ u16 ''n)'') (deduct 5 st)
      else detail (u16 ''Korrekt bruk av H1-overskrift'') st)"

definition seo_h2 :: "nat \<Rightarrow> nat \<Rightarrow> acc \<Rightarrow> acc" where
  "seo_h2 h2Count htmlLength st =
     (if h2Count = 0 \<and> htmlLength > 5000 then
        issue Info (u16 ''Mangler H2-overskrifter for struktur'') (deduct 3 st)
      else st)"

definition canonical_re :: re where
  \<comment> \<open>\<open>/<link[^>]*rel=["']canonical["'][^>]*href=["']([^"']+)["']/i\<close>\<close>
  "canonical_re = seqs [Lit (u16 ''<link''), Many 0 not_gt, attr ''rel'' ''canonical'',
     Many 0 not_gt, Lit (u16 ''href=''), Cls quote, Cap (Many 1 not_quote), Cls quote]"

definition seo_canonical :: "bool \<Rightarrow> acc \<Rightarrow> acc" where
  "seo_canonical hasCanonical st =
     (if \<not> hasCanonical then issue Warning (u16 ''Mangler canonical URL'') (deduct 8 st)
      else detail (u16 ''Canonical URL er definert'') st)"

definition meta_re :: "string \<Rightarrow> string \<Rightarrow> re" where
  \<comment> \<open>\<open>/<meta[^>]*key=["']v["']/i\<close>\<close>
  "meta_re key v = seqs [Lit (u16 ''<meta''), Many 0 not_gt, attr key v]"

definition seo_open_graph :: "nat \<Rightarrow> acc \<Rightarrow> acc" where
  "seo_open_graph ogScore st =
     (if ogScore = 0 then
        issue Warning (u16 ''Mangler Open Graph-tags (p'' @ [229] @ u16 ''virker deling p'' @ [229] @ u16 '' sosiale medier)'')
          (deduct 8 st)
      else if ogScore < 4 then
        issue Info (u16 ''Ufullstendige Open Graph-tags ('' @ show_nat (ogScore) @ u16 ''/4)'') (deduct 4 st)
      else detail (u16 ''Komplett Open Graph-implementasjon'') st)"

definition seo_twitter :: "bool \<Rightarrow> acc \<Rightarrow> acc" where
  "seo_twitter twitterCard st =
     (if \<not> twitterCard then issue Info (u16 ''Mangler Twitter Card-tags'') (deduct 4 st)
      else st)"

definition seo_image_alt :: "nat \<Rightarrow> acc \<Rightarrow> acc" where
  "seo_image_alt imagesWithoutAlt st =
     (if imagesWithoutAlt > 0 then
        issue Warning (show_nat (imagesWithoutAlt) @ u16 '' bilder mangler alt-tekst'')
          (deduct (int (min 10 (imagesWithoutAlt * 2))) st)
      else st)"

definition json_ld_re :: re where
  \<comment> \<open>\<open>/<script[^>]*type=["']application\/ld\+json["']/i\<close>\<close>
  "json_ld_re = seqs [Lit (u16 ''<script''), Many 0 not_gt, attr ''type'' ''application/ld+json'']"

definition microdata_re :: re where
  \<comment> \<open>\<open>/itemscope|itemtype/i\<close>\<close>
  "microdata_re = Alt (Lit (u16 ''itemscope'')) (Lit (u16 ''itemtype''))"

definition seo_structured_data :: "bool \<Rightarrow> bool \<Rightarrow> acc \<Rightarrow> acc" where
  "seo_structured_data hasJsonLd hasMicrodata st =
     (if \<not> hasJsonLd \<and> \<not> hasMicrodata then
        issue Info (u16 ''Mangler strukturert data (Schema.org)'') (deduct 5 st)
      else detail (u16 ''Strukturert data er implementert'') st)"

definition html_lang_re :: re where
  \<comment> \<open>\<open>/<html[^>]*lang=["']([^"']+)["']/i\<close>; \<open>analyzeSEO\<close> writes it without the group\<close>
  "html_lang_re = seqs [Lit (u16 ''<html''), Many 0 not_gt, Lit (u16 ''lang=''), Cls quote,
     Cap (Many 1 not_quote), Cls quote]"

definition seo_lang :: "bool \<Rightarrow> acc \<Rightarrow> acc" where
  "seo_lang hasLang st =
     (if \<not> hasLang then
        issue Info (u16 ''Mangler spr'' @ [229] @ u16 ''kdeklarasjon (lang-attributt)'') (deduct 3 st)
      else st)"

definition robots_re :: re where
  \<comment> \<open>\<open>/<meta[^>]*name=["']robots["'][^>]*content=["']([^"']+)["']/i\<close>\<close>
  "robots_re = seqs [Lit (u16 ''<meta''), Many 0 not_gt, attr ''name'' ''robots'',
     Many 0 not_gt, Lit (u16 ''content=''), Cls quote, Cap (Many 1 not_quote), Cls quote]"

definition seo_robots :: "(jsstring \<times> jsstring option) option \<Rightarrow> acc \<Rightarrow> acc" where
  "seo_robots robotsMeta st =
     (case robotsMeta of
        None \<Rightarrow> st
      | Some m \<Rightarrow>
          if test (Lit (u16 ''noindex'')) (group1 m) then
            issue Warning (u16 ''Siden er satt til noindex (vil ikke indekseres)'') st
          else st)"

definition internal_link_re :: re where
  \<comment> \<open>\<open>/<a[^>]*href=["']\/[^"']*["']/gi\<close>\<close>
  "internal_link_re = seqs [Lit (u16 ''<a''), Many 0 not_gt, Lit (u16 ''href=''), Cls quote,
     Lit [47], Many 0 not_quote, Cls quote]"

definition seo_internal_links :: "nat \<Rightarrow> nat \<Rightarrow> acc \<Rightarrow> acc" where
  "seo_internal_links internalLinks htmlLength st =
     (if internalLinks < 3 \<and> htmlLength > 5000 then
        issue Info (u16 ''F'' @ [229] @ u16 '' interne lenker (b'' @ [248] @ u16 ''r ha flere for bedre SEO)'') (deduct 2 st)
      else st)"

text \<open>
  \<open>parsedUrl\<close> is a parameter of the source that it never reads, as are the constants
  \<open>h3Matches\<close>, \<open>twitterTitle\<close>, \<open>imagesWithEmptyAlt\<close>, \<open>externalLinks\<close> and
  \<open>hasSitemapLink\<close>.

  \<open>seo_run\<close> is the body of \<open>analyzeSEO\<close> up to its \<open>return\<close>, with the image block
  as a parameter; \<open>analyzeSEO\<close> runs it with \<open>seo_image_alt\<close>, the image block of the
  source.
\<close>

definition seo_titleMatch :: "jsstring \<Rightarrow> (jsstring \<times> jsstring option) option" where
  "seo_titleMatch html = match title_re html"

definition seo_descMatch :: "jsstring \<Rightarrow> (jsstring \<times> jsstring option) option" where
  "seo_descMatch html =
     (case match description_re html of
        Some m \<Rightarrow> Some m
      | None \<Rightarrow> match description_re2 html)"

definition seo_ogScore :: "jsstring \<Rightarrow> nat" where
  "seo_ogScore html =
     length (filter (\<lambda>m. m \<noteq> None)
       [match (meta_re ''property'' ''og:title'') html,
        match (meta_re ''property'' ''og:description'') html,
        match (meta_re ''property'' ''og:image'') html,
        match (meta_re ''property'' ''og:url'') html])"

definition seo_images_without_alt :: "jsstring \<Rightarrow> nat" where
  "seo_images_without_alt html =
     length (filter (\<lambda>img. \<not> test (Lit (u16 ''alt='')) img) (match_g (tag_re ''img'') html))"

definition seo_run :: "(nat \<Rightarrow> acc \<Rightarrow> acc) \<Rightarrow> jsstring \<Rightarrow> acc" where
  "seo_run image_block html =
     (let titleMatch = seo_titleMatch html;
          descMatch = seo_descMatch html;
          h1Matches = match_g h1_block_re html;
          h2Matches = match_g (tag_re ''h2'') html;
          canonicalMatch = match canonical_re html;
          ogScore = seo_ogScore html;
          twitterCard = match (meta_re ''name'' ''twitter:card'') html;
          imagesWithoutAlt = seo_images_without_alt html;
          hasJsonLd = test json_ld_re html;
          hasMicrodata = test microdata_re html;
          hasLang = test html_lang_re html;
          robotsMeta = match robots_re html;
          internalLinks = length (match_g internal_link_re html)
      in seo_internal_links internalLinks (length html)
          (seo_robots robotsMeta
          (seo_lang hasLang
          (seo_structured_data hasJsonLd hasMicrodata
          (image_block imagesWithoutAlt
          (seo_twitter (twitterCard \<noteq> None)
          (seo_open_graph ogScore
          (seo_canonical (canonicalMatch \<noteq> None)
          (seo_h2 (length h2Matches) (length html)
          (seo_h1 (length h1Matches)
          (seo_description descMatch
          (seo_title titleMatch start))))))))))))"

definition seo_locals :: "jsstring \<Rightarrow> acc" where
  "seo_locals html = seo_run seo_image_alt html"

definition analyzeSEO :: "jsstring \<Rightarrow> url \<Rightarrow> seo_metrics DimensionResult" where
  "analyzeSEO html parsedUrl =
     finish (seo_locals html)
       \<lparr> seo_titleLength =
           (case seo_titleMatch html of None \<Rightarrow> 0 | Some m \<Rightarrow> length (trim (group1 m))),
         seo_descriptionLength =
           (case seo_descMatch html of None \<Rightarrow> 0 | Some m \<Rightarrow> length (group1 m)),
         seo_h1Count = length (match_g h1_block_re html),
         seo_h2Count = length (match_g (tag_re ''h2'') html),
         seo_imagesWithoutAlt = seo_images_without_alt html,
         seo_hasStructuredData = (test json_ld_re html \<or> test microdata_re html),
         seo_hasOpenGraph = (seo_ogScore html = 4) \<rparr>"

section \<open>Security analyzer\<close>

text \<open>
  The response headers are the (name, value) pairs that \<open>headers.forEach\<close> visits, in
  its order. \<open>headerObj\<close> is the object the source builds from them.
\<close>

type_synonym headers = "(jsstring \<times> jsstring) list"

definition headerObj :: "headers \<Rightarrow> (jsstring \<rightharpoonup> jsstring)" where
  "headerObj hs = foldl (\<lambda>obj (key, v). obj(toLowerCase key \<mapsto> v)) Map.empty hs"

record security_headers =
  https :: bool
  hsts :: bool
  csp :: bool
  xfo :: bool
  xcto :: bool

definition sec_https :: "url \<Rightarrow> acc \<Rightarrow> acc" where
  "sec_https parsedUrl st =
     (if protocol parsedUrl \<noteq> u16 ''https:'' then
        issue Critical (u16 ''Siden bruker ikke HTTPS'') (deduct 30 st)
      else detail (u16 ''HTTPS er aktivert'') st)"

definition max_age_re :: re where
  \<comment> \<open>\<open>/max-age=(\d+)/i\<close>\<close>
  "max_age_re = Seq (Lit (u16 ''max-age='')) (Cap (Many 1 digit))"

definition hsts_missing :: "acc \<Rightarrow> acc" where
  "hsts_missing st =
     issue Warning (u16 ''Mangler HSTS-header (Strict-Transport-Security)'') (deduct 12 st)"

definition sec_hsts :: "jsstring option \<Rightarrow> acc \<Rightarrow> acc" where
  "sec_hsts hstsHeader st =
     (case hstsHeader of
        None \<Rightarrow> hsts_missing st
      | Some h \<Rightarrow>
          if h = [] then hsts_missing st
          else
            (let maxAge = match max_age_re h;
                 st1 = (if (case maxAge of None \<Rightarrow> False
                                          | Some m \<Rightarrow> parseInt (group1 m) < 31536000) then
                          issue Info (u16 ''HSTS max-age b'' @ [248] @ u16 ''r v'' @ [230] @ u16 ''re minst 1 '' @ [229] @ u16 ''r (31536000 sekunder)'')
                            (deduct 4 st)
                        else detail (u16 ''HSTS er korrekt konfigurert'') st)
             in if \<not> test (Lit (u16 ''includeSubDomains'')) h then
                  issue Info (u16 ''HSTS mangler includeSubDomains'') st1
                else st1))"

definition csp_missing :: "acc \<Rightarrow> acc" where
  "csp_missing st =
     issue Warning (u16 ''Mangler Content-Security-Policy header'') (deduct 10 st)"

definition sec_csp :: "jsstring option \<Rightarrow> acc \<Rightarrow> acc" where
  "sec_csp cspHeader st =
     (case cspHeader of
        None \<Rightarrow> csp_missing st
      | Some c \<Rightarrow>
          if c = [] then csp_missing st
          else
            (let st1 = detail (u16 ''CSP er implementert'') st;
                 st2 = (if test (Lit (u16 ''unsafe-inline'')) c \<and>
                           test (Lit (u16 ''script-src'')) c then
                          issue Info (u16 ''CSP tillater unsafe-inline for scripts'') (deduct 3 st1)
                        else st1)
             in if test (Lit (u16 ''unsafe-eval'')) c then
                  issue Info (u16 ''CSP tillater unsafe-eval'') (deduct 3 st2)
                else st2))"

text \<open>\<open>!xfo && !csp?.includes('frame-ancestors')\<close>\<close>

definition sec_xfo :: "jsstring option \<Rightarrow> jsstring option \<Rightarrow> acc \<Rightarrow> acc" where
  "sec_xfo xfoHeader cspHeader st =
     (if \<not> truthy xfoHeader \<and>
         \<not> (case cspHeader of None \<Rightarrow> False
                              | Some c \<Rightarrow> includes_str c (u16 ''frame-ancestors'')) then
        issue Warning (u16 ''Mangler clickjacking-beskyttelse (X-Frame-Options)'') (deduct 8 st)
      else detail (u16 ''Clickjacking-beskyttelse er aktiv'') st)"

definition sec_xcto :: "jsstring option \<Rightarrow> acc \<Rightarrow> acc" where
  "sec_xcto xctoHeader st =
     (if \<not> truthy xctoHeader then
        issue Warning (u16 ''Mangler X-Content-Type-Options: nosniff'') (deduct 6 st)
      else detail (u16 ''MIME-type sniffing er blokkert'') st)"

definition sec_referrer :: "jsstring option \<Rightarrow> acc \<Rightarrow> acc" where
  "sec_referrer referrerPolicy st =
     (if \<not> truthy referrerPolicy then
        issue Info (u16 ''Mangler Referrer-Policy header'') (deduct 4 st)
      else st)"

text \<open>\<open>headerObj['permissions-policy'] || headerObj['feature-policy']\<close>\<close>

definition sec_permissions :: "jsstring option \<Rightarrow> jsstring option \<Rightarrow> acc \<Rightarrow> acc" where
  "sec_permissions permissions feature st =
     (let permissionsPolicy = (if truthy permissions then permissions else feature)
      in if \<not> truthy permissionsPolicy then
           issue Info (u16 ''Mangler Permissions-Policy header'') (deduct 4 st)
         else st)"

definition sec_xss :: "jsstring option \<Rightarrow> acc \<Rightarrow> acc" where
  "sec_xss xssHeader st =
     (if \<not> truthy xssHeader then
        issue Info (u16 ''Mangler X-XSS-Protection header (legacy)'') (deduct 2 st)
      else st)"

definition http_resource_re :: re where
  \<comment> \<open>\<open>/http:\/\/(?!localhost)[^"'\s>]+/gi\<close>\<close>
  "http_resource_re = seqs [Lit (u16 ''http://''), NLook (Lit (u16 ''localhost'')),
     Many 1 (\<lambda>c. c \<noteq> 34 \<and> c \<noteq> 39 \<and> \<not> is_space c \<and> c \<noteq> 62)]"

definition sec_mixed_content :: "nat \<Rightarrow> url \<Rightarrow> acc \<Rightarrow> acc" where
  "sec_mixed_content httpResources parsedUrl st =
     (if httpResources > 0 \<and> protocol parsedUrl = u16 ''https:'' then
        issue Warning (show_nat (httpResources) @ u16 '' ressurser lastes over HTTP (mixed content)'')
          (deduct 5 st)
      else st)"

definition alnum :: "cu \<Rightarrow> bool" where      \<comment> \<open>\<open>[a-zA-Z0-9]\<close>\<close>
  "alnum c \<longleftrightarrow> (97 \<le> c \<and> c \<le> 122) \<or> (65 \<le> c \<and> c \<le> 90) \<or> (48 \<le> c \<and> c \<le> 57)"

definition alpha :: "cu \<Rightarrow> bool" where      \<comment> \<open>\<open>[a-zA-Z]\<close>\<close>
  "alpha c \<longleftrightarrow> (97 \<le> c \<and> c \<le> 122) \<or> (65 \<le> c \<and> c \<le> 90)"

definition email_re :: re where
  \<comment> \<open>\<open>/[a-zA-Z0-9._%+-]+@[a-zA-Z0-9.-]+\.[a-zA-Z]{2,}/g\<close>\<close>
  "email_re = seqs
     [Many 1 (\<lambda>c. alnum c \<or> c = 46 \<or> c = 95 \<or> c = 37 \<or> c = 43 \<or> c = 45),
      Lit [64],
      Many 1 (\<lambda>c. alnum c \<or> c = 46 \<or> c = 45),
      Lit [46],
      Many 2 alpha]"

definition sec_email :: "nat \<Rightarrow> acc \<Rightarrow> acc" where
  "sec_email exposedEmails st =
     (if exposedEmails > 3 then
        issue Info (u16 ''E-postadresser er synlige i kildekoden (spam-risiko)'') (deduct 2 st)
      else st)"

definition http_action_re :: re where
  \<comment> \<open>\<open>/action=["']http:\/\//i\<close>\<close>
  "http_action_re = seqs [Lit (u16 ''action=''), Cls quote, Lit (u16 ''http://'')]"

definition sec_forms :: "nat \<Rightarrow> acc \<Rightarrow> acc" where
  "sec_forms formsWithoutHTTPS st =
     (if formsWithoutHTTPS > 0 then
        issue Critical (show_nat (formsWithoutHTTPS) @ u16 '' skjema sender data over HTTP'') (deduct 8 st)
      else st)"

definition password_field_re :: re where
  \<comment> \<open>\<open>/<input[^>]*type=["']password["'][^>]*>/gi\<close>\<close>
  "password_field_re = seqs [Lit (u16 ''<input''), Many 0 not_gt, attr ''type'' ''password'',
     Many 0 not_gt, Lit [62]]"

definition sec_password :: "nat \<Rightarrow> acc \<Rightarrow> acc" where
  "sec_password passwordWithoutAutocomplete st =
     (if passwordWithoutAutocomplete > 0 then
        issue Info (u16 ''Passord-felt mangler autocomplete-attributt'') st
      else st)"

definition server_name_re :: re where
  \<comment> \<open>\<open>/apache|nginx|iis/i\<close>\<close>
  "server_name_re = Alt (Lit (u16 ''apache'')) (Alt (Lit (u16 ''nginx'')) (Lit (u16 ''iis'')))"

definition version_re :: re where
  \<comment> \<open>\<open>/\d+\.\d+/i\<close>\<close>
  "version_re = seqs [Many 1 digit, Lit [46], Many 1 digit]"

definition sec_server :: "jsstring option \<Rightarrow> acc \<Rightarrow> acc" where
  "sec_server server st =
     (case server of
        None \<Rightarrow> st
      | Some v \<Rightarrow>
          if v \<noteq> [] \<and> test server_name_re v \<and> test version_re v then
            issue Info (u16 ''Server-versjon er synlig i headers'') (deduct 2 st)
          else st)"

definition sec_powered_by :: "jsstring option \<Rightarrow> acc \<Rightarrow> acc" where
  "sec_powered_by xPoweredBy st =
     (if truthy xPoweredBy then
        issue Info (u16 ''X-Powered-By header eksponerer teknologi'') (deduct 2 st)
      else st)"

text \<open>
  \<open>sec_locals\<close> is the body of \<open>analyzeSecurity\<close> up to its \<open>return\<close>. The source
  returns the five booleans under the key \<open>headers\<close>.
\<close>

definition sec_locals :: "url \<Rightarrow> headers \<Rightarrow> jsstring \<Rightarrow> acc" where
  "sec_locals parsedUrl hs html =
     (let obj = headerObj hs;
          hstsHeader = obj (u16 ''strict-transport-security'');
          cspHeader = obj (u16 ''content-security-policy'');
          xfoHeader = obj (u16 ''x-frame-options'');
          xctoHeader = obj (u16 ''x-content-type-options'');
          httpResources = match_g http_resource_re html;
          hasExposedEmail = match_g email_re html;
          forms = match_g (tag_re ''form'') html;
          formsWithoutHTTPS = length (filter (test http_action_re) forms);
          passwordFields = match_g password_field_re html;
          passwordWithoutAutocomplete =
            length (filter (\<lambda>f. \<not> test (Lit (u16 ''autocomplete='')) f) passwordFields)
      in sec_powered_by (obj (u16 ''x-powered-by''))
          (sec_server (obj (u16 ''server''))
          (sec_password passwordWithoutAutocomplete
          (sec_forms formsWithoutHTTPS
          (sec_email (length hasExposedEmail)
          (sec_mixed_content (length httpResources) parsedUrl
          (sec_xss (obj (u16 ''x-xss-protection''))
          (sec_permissions (obj (u16 ''permissions-policy'')) (obj (u16 ''feature-policy''))
          (sec_referrer (obj (u16 ''referrer-policy''))
          (sec_xcto xctoHeader
          (sec_xfo xfoHeader cspHeader
          (sec_csp cspHeader
          (sec_hsts hstsHeader
          (sec_https parsedUrl start))))))))))))))"

definition analyzeSecurity ::
  "url \<Rightarrow> headers \<Rightarrow> jsstring \<Rightarrow> security_headers DimensionResult" where
  "analyzeSecurity parsedUrl hs html =
     finish (sec_locals parsedUrl hs html)
       \<lparr> https = (protocol parsedUrl = u16 ''https:''),
         hsts = truthy (headerObj hs (u16 ''strict-transport-security'')),
         csp = truthy (headerObj hs (u16 ''content-security-policy'')),
         xfo = truthy (headerObj hs (u16 ''x-frame-options'')),
         xcto = truthy (headerObj hs (u16 ''x-content-type-options'')) \<rparr>"

section \<open>Mobile analyzer\<close>

record mobile_metrics =
  mob_hasViewport :: bool
  mob_responsiveImages :: nat
  mob_totalImages :: nat
  mob_mediaQueries :: nat
  mob_hasManifest :: bool
  mob_hasTouchIcon :: bool

definition viewport_re :: re where
  \<comment> \<open>\<open>/<meta[^>]*name=["']viewport["'][^>]*content=["']([^"']+)["']/i\<close>\<close>
  "viewport_re = seqs [Lit (u16 ''<meta''), Many 0 not_gt, attr ''name'' ''viewport'',
     Many 0 not_gt, Lit (u16 ''content=''), Cls quote, Cap (Many 1 not_quote), Cls quote]"

definition mob_viewport :: "(jsstring \<times> jsstring option) option \<Rightarrow> acc \<Rightarrow> acc" where
  "mob_viewport viewportMatch st =
     (case viewportMatch of
        None \<Rightarrow> issue Critical (u16 ''Mangler viewport meta-tag'') (deduct 25 st)
      | Some m \<Rightarrow>
          (let viewport = toLowerCase (group1 m);
               st1 = (if \<not> includes_str viewport (u16 ''width=device-width'') then
                        issue Warning (u16 ''Viewport mangler width=device-width'') (deduct 10 st)
                      else detail (u16 ''Viewport er korrekt konfigurert'') st);
               st2 = (if includes_str viewport (u16 ''maximum-scale=1'') \<or>
                         includes_str viewport (u16 ''user-scalable=no'') then
                        issue Warning (u16 ''Viewport blokkerer zoom (d'' @ [229] @ u16 ''rlig for tilgjengelighet)'')
                          (deduct 5 st1)
                      else st1)
           in if \<not> includes_str viewport (u16 ''initial-scale'') then
                issue Info (u16 ''Viewport mangler initial-scale=1'') (deduct 2 st2)
              else st2))"

definition font_size_re :: re where
  \<comment> \<open>\<open>/font-size:\s*([0-9]+)px/gi\<close>\<close>
  "font_size_re = seqs [Lit (u16 ''font-size:''), Many 0 is_space, Cap (Many 1 digit),
     Lit (u16 ''px'')]"

text \<open>
  \<open>parseInt(f.match(/\d+/)[0])\<close>: indexing the result of \<open>match\<close> is a \<open>TypeError\<close>
  when there is no digit in \<open>f\<close>.
\<close>

definition first_number :: "jsstring \<Rightarrow> error + nat" where
  "first_number f =
     (case match (Many 1 digit) f of
        None \<Rightarrow> Inl TypeError
      | Some m \<Rightarrow> Inr (parseInt (fst m)))"

definition number_test :: "(nat \<Rightarrow> bool) \<Rightarrow> jsstring \<Rightarrow> error + bool" where
  "number_test p f = (case first_number f of Inl e \<Rightarrow> Inl e | Inr n \<Rightarrow> Inr (p n))"

definition mob_small_fonts :: "nat \<Rightarrow> acc \<Rightarrow> acc" where
  "mob_small_fonts verySmallFonts st =
     (if verySmallFonts > 5 then
        issue Warning (u16 ''Flere elementer har for liten skriftst'' @ [248] @ u16 ''rrelse for mobil (<12px)'')
          (deduct 5 st)
      else st)"

definition padding_re :: re where
  \<comment> \<open>\<open>/padding:\s*[0-3]px/gi\<close>\<close>
  "padding_re = seqs [Lit (u16 ''padding:''), Many 0 is_space, Cls (\<lambda>c. 48 \<le> c \<and> c \<le> 51),
     Lit (u16 ''px'')]"

definition mob_tap_targets :: "nat \<Rightarrow> acc \<Rightarrow> acc" where
  "mob_tap_targets smallButtons st =
     (if smallButtons > 3 then
        issue Info (u16 ''Noen klikkbare elementer kan v'' @ [230] @ u16 ''re for sm'' @ [229] @ u16 '' for touch'') (deduct 3 st)
      else st)"

text \<open>\<open>responsiveImages < imgTags.length / 2\<close> is compared without the division.\<close>

definition mob_responsive_images :: "nat \<Rightarrow> nat \<Rightarrow> nat \<Rightarrow> acc \<Rightarrow> acc" where
  "mob_responsive_images totalImages responsiveImages pictureElements st =
     (if totalImages > 5 \<and> responsiveImages = 0 \<and> pictureElements = 0 then
        issue Warning (u16 ''Ingen responsive bilder (srcset/picture)'') (deduct 8 st)
      else if totalImages > 3 \<and> 2 * responsiveImages < totalImages then
        issue Info (u16 ''Kun '' @ show_nat (responsiveImages) @ u16 ''/'' @ show_nat (totalImages) @ u16 '' bilder er responsive'')
          (deduct 4 st)
      else st)"

definition media_query_re :: re where
  \<comment> \<open>\<open>/@media[^{]*\{/gi\<close>\<close>
  "media_query_re = seqs [Lit (u16 ''@media''), Many 0 (\<lambda>c. c \<noteq> 123), Lit [123]]"

definition mobile_query_re :: re where
  \<comment> \<open>\<open>/max-width|min-width|screen/i\<close>\<close>
  "mobile_query_re =
     Alt (Lit (u16 ''max-width'')) (Alt (Lit (u16 ''min-width'')) (Lit (u16 ''screen'')))"

definition mob_media_queries :: "nat \<Rightarrow> acc \<Rightarrow> acc" where
  "mob_media_queries mobileQueries st =
     (if mobileQueries = 0 then
        issue Warning (u16 ''Ingen CSS media queries for responsivt design'') (deduct 10 st)
      else if mobileQueries < 3 then
        issue Info (u16 ''F'' @ [229] @ u16 '' media queries: '' @ show_nat (mobileQueries)) (deduct 4 st)
      else detail (show_nat (mobileQueries) @ u16 '' responsive media queries'') st)"

definition fixed_width_re :: re where
  \<comment> \<open>\<open>/width:\s*\d{4,}px/gi\<close>\<close>
  "fixed_width_re = seqs [Lit (u16 ''width:''), Many 0 is_space, Many 4 digit, Lit (u16 ''px'')]"

definition mob_fixed_widths :: "nat \<Rightarrow> acc \<Rightarrow> acc" where
  "mob_fixed_widths largeFixedWidths st =
     (if largeFixedWidths > 2 then
        issue Warning (show_nat (largeFixedWidths) @ u16 '' elementer har faste bredder som kan bryte mobil-layout'')
          (deduct 8 st)
      else st)"

definition mob_touch_icon :: "bool \<Rightarrow> acc \<Rightarrow> acc" where
  "mob_touch_icon appleTouchIcon st =
     (if \<not> appleTouchIcon then issue Info (u16 ''Mangler Apple Touch Icon'') (deduct 3 st)
      else st)"

definition mob_favicon :: "bool \<Rightarrow> acc \<Rightarrow> acc" where
  "mob_favicon favicon st =
     (if \<not> favicon then issue Info (u16 ''Mangler favicon'') (deduct 2 st) else st)"

definition mob_manifest :: "bool \<Rightarrow> acc \<Rightarrow> acc" where
  "mob_manifest hasManifest st =
     (if \<not> hasManifest then
        issue Info (u16 ''Mangler Web App Manifest (PWA-st'' @ [248] @ u16 ''tte)'') (deduct 5 st)
      else detail (u16 ''Web App Manifest er implementert'') st)"

definition mob_theme_color :: "bool \<Rightarrow> acc \<Rightarrow> acc" where
  "mob_theme_color hasThemeColor st =
     (if \<not> hasThemeColor then issue Info (u16 ''Mangler theme-color meta-tag'') (deduct 2 st)
      else st)"

text \<open>
  The constants \<open>overflowX\<close>, \<open>noOverflowControl\<close>, \<open>hasTelLinks\<close> and
  \<open>hasAddressLinks\<close> of the source are computed and never read.

  \<open>mob_run\<close> is the body of \<open>analyzeMobile\<close> up to its \<open>return\<close>, with the image
  block as a parameter; \<open>analyzeMobile\<close> runs it with \<open>mob_responsive_images\<close>, the
  image block of the source.
\<close>

definition mob_imgTags :: "jsstring \<Rightarrow> jsstring list" where
  "mob_imgTags html = match_g (tag_re ''img'') html"

definition mob_responsive :: "jsstring \<Rightarrow> nat" where
  "mob_responsive html = length (filter (test (Lit (u16 ''srcset=''))) (mob_imgTags html))"

definition mob_mobileQueries :: "jsstring \<Rightarrow> nat" where
  "mob_mobileQueries html =
     length (filter (test mobile_query_re) (match_g media_query_re html))"

definition mob_run :: "(nat \<Rightarrow> nat \<Rightarrow> nat \<Rightarrow> acc \<Rightarrow> acc) \<Rightarrow> jsstring \<Rightarrow> error + acc" where
  "mob_run image_block html =
     (let viewportMatch = match viewport_re html;
          smallClickTargets = match_g font_size_re html;
          smallButtons = length (match_g padding_re html);
          imgTags = mob_imgTags html;
          responsiveImages = mob_responsive html;
          pictureElements = length (match_g (tag_re ''picture'') html);
          mobileQueries = mob_mobileQueries html;
          fixedWidths = match_g fixed_width_re html;
          appleTouchIcon = test (link_rel_re ''apple-touch-icon'') html;
          favicon = test (link_rel_re ''icon'') html;
          hasManifest = test (link_rel_re ''manifest'') html;
          hasThemeColor = test (meta_re ''name'' ''theme-color'') html
      in case filter_e (number_test (\<lambda>size. size < 12)) smallClickTargets of
           Inl e \<Rightarrow> Inl e
         | Inr verySmallFonts \<Rightarrow>
             (case filter_e (number_test (\<lambda>w. w > 500)) fixedWidths of
                Inl e \<Rightarrow> Inl e
              | Inr largeFixedWidths \<Rightarrow>
                  Inr (mob_theme_color hasThemeColor
                      (mob_manifest hasManifest
                      (mob_favicon favicon
                      (mob_touch_icon appleTouchIcon
                      (mob_fixed_widths (length largeFixedWidths)
                      (mob_media_queries mobileQueries
                      (image_block (length imgTags) responsiveImages pictureElements
                      (mob_tap_targets smallButtons
                      (mob_small_fonts (length verySmallFonts)
                      (mob_viewport viewportMatch start))))))))))))"

definition mob_locals :: "jsstring \<Rightarrow> error + acc" where
  "mob_locals html = mob_run mob_responsive_images html"

definition analyzeMobile :: "jsstring \<Rightarrow> error + mobile_metrics DimensionResult" where
  "analyzeMobile html =
     (case mob_locals html of
        Inl e \<Rightarrow> Inl e
      | Inr st \<Rightarrow>
          Inr (finish st
            \<lparr> mob_hasViewport = (match viewport_re html \<noteq> None),
              mob_responsiveImages = mob_responsive html,
              mob_totalImages = length (mob_imgTags html),
              mob_mediaQueries = mob_mobileQueries html,
              mob_hasManifest = test (link_rel_re ''manifest'') html,
              mob_hasTouchIcon = test (link_rel_re ''apple-touch-icon'') html \<rparr>))"

section \<open>Accessibility analyzer\<close>

record a11y_metrics =
  a11y_hasLang :: bool
  a11y_imagesWithoutAlt :: nat
  a11y_landmarks :: nat
  a11y_hasSkipLink :: bool
  a11y_headingStructure :: jsstring

definition a11y_lang :: "(jsstring \<times> jsstring option) option \<Rightarrow> acc \<Rightarrow> acc" where
  "a11y_lang htmlLang st =
     (case htmlLang of
        None \<Rightarrow> issue Warning (u16 ''Mangler lang-attributt p'' @ [229] @ u16 '' html-elementet'') (deduct 8 st)
      | Some m \<Rightarrow> detail (u16 ''Spr'' @ [229] @ u16 ''k er definert: '' @ group1 m) st)"

definition a11y_image_alt :: "nat \<Rightarrow> nat \<Rightarrow> acc \<Rightarrow> acc" where
  "a11y_image_alt imagesWithoutAlt totalImages st =
     (if imagesWithoutAlt > 0 then
        issue Warning (show_nat (imagesWithoutAlt) @ u16 '' bilder mangler alt-attributt'')
          (deduct (int (min 15 (imagesWithoutAlt * 3))) st)
      else if totalImages > 0 then detail (u16 ''Alle bilder har alt-attributt'') st
      else st)"

subsection \<open>Form labels\<close>

definition input_type_re :: re where
  \<comment> \<open>\<open>/type=["'](hidden|submit|button|image)["']/i\<close>\<close>
  "input_type_re = seqs [Lit (u16 ''type=''), Cls quote,
     Alt (Lit (u16 ''hidden'')) (Alt (Lit (u16 ''submit''))
       (Alt (Lit (u16 ''button'')) (Lit (u16 ''image'')))),
     Cls quote]"

text \<open>
  The source builds the label pattern from the text of the \<open>id\<close> attribute:
  \<open>new RegExp(`<label[^>]*for=["']${idMatch[1]}["']`, 'i')\<close>. The text is not escaped, so
  it is read as pattern syntax. The constructor belongs to the platform. Two parts of it
  are written out here:
  \<^item> when the text has only ASCII characters that are not syntax characters of a
    pattern, it stands for itself, and the pattern is \<open>label_for_re\<close>;
  \<^item> when a group or a class of the pattern source is left open, a closing parenthesis
    has no opening one, or the source ends in a backslash, the constructor throws
    \<open>SyntaxError\<close> (\<open>groups_closed\<close> scans for that).
  For every other pattern source the constructor is the parameter \<open>regexp\<close>: \<open>None\<close>
  is its \<open>SyntaxError\<close>, and \<open>Some t\<close> gives the \<open>test\<close> method of the pattern.
\<close>

definition syntax_character :: "cu \<Rightarrow> bool" where
  \<comment> \<open>\<open>^ $ \ . * + ? ( ) [ ] { } |\<close>\<close>
  "syntax_character c \<longleftrightarrow>
     c \<in> set [94, 36, 92, 46, 42, 43, 63, 40, 41, 91, 93, 123, 125, 124]"

definition plain :: "cu \<Rightarrow> bool" where
  "plain c \<longleftrightarrow> c < 128 \<and> \<not> syntax_character c"

definition label_source :: "jsstring \<Rightarrow> jsstring" where
  "label_source ident = (u16 ''<label[^>]*for=['' @ [34, 39] @ u16 '']'' @ ident @ u16 ''['' @ [34, 39] @ u16 '']'')"

definition label_for_re :: "jsstring \<Rightarrow> re" where
  "label_for_re ident = seqs [Lit (u16 ''<label''), Many 0 not_gt, Lit (u16 ''for=''),
     Cls quote, Lit ident, Cls quote]"

fun groups_closed :: "nat \<Rightarrow> bool \<Rightarrow> jsstring \<Rightarrow> bool" where
  "groups_closed depth in_class [] = (depth = 0 \<and> \<not> in_class)"
| "groups_closed depth in_class (x # xs) =
     (if x = 92 then (case xs of [] \<Rightarrow> False | y # ys \<Rightarrow> groups_closed depth in_class ys)
      else if in_class then groups_closed depth (x \<noteq> 93) xs
      else if x = 91 then groups_closed depth True xs
      else if x = 40 then groups_closed (Suc depth) False xs
      else if x = 41 then depth > 0 \<and> groups_closed (depth - 1) False xs
      else groups_closed depth False xs)"

definition new_label_RegExp ::
  "(jsstring \<Rightarrow> (jsstring \<Rightarrow> bool) option) \<Rightarrow> jsstring \<Rightarrow> error + (jsstring \<Rightarrow> bool)" where
  "new_label_RegExp regexp ident =
     (if list_all plain ident then Inr (test (label_for_re ident))
      else if \<not> groups_closed 0 False (label_source ident) then Inl SyntaxError
      else (case regexp (label_source ident) of
              None \<Rightarrow> Inl SyntaxError
            | Some t \<Rightarrow> Inr t))"

definition without_label ::
  "(jsstring \<Rightarrow> (jsstring \<Rightarrow> bool) option) \<Rightarrow> jsstring \<Rightarrow> jsstring \<Rightarrow> error + bool" where
  "without_label regexp html input =
     (case match (attr_value_re ''id'' 1) input of
        None \<Rightarrow> Inr True
      | Some idMatch \<Rightarrow>
          (case new_label_RegExp regexp (group1 idMatch) of
             Inl e \<Rightarrow> Inl e
           | Inr labelPattern \<Rightarrow> Inr (\<not> labelPattern html)))"

definition a11y_form_labels :: "nat \<Rightarrow> nat \<Rightarrow> acc \<Rightarrow> acc" where
  "a11y_form_labels inputsWithoutLabel inputsWithAriaLabel st =
     (if inputsWithoutLabel > inputsWithAriaLabel then
        (let unlabeled = inputsWithoutLabel - inputsWithAriaLabel
         in if unlabeled > 0 then
              issue Warning (show_nat (unlabeled) @ u16 '' skjemafelt mangler tilknyttet label'')
                (deduct (int (min 12 (unlabeled * 3))) st)
            else st)
      else st)"

subsection \<open>Headings\<close>

definition heading_re :: "nat \<Rightarrow> re" where
  \<comment> \<open>\<open>new RegExp(`<h${i}[^>]*>`, 'gi')\<close>\<close>
  "heading_re i = seqs [Lit (u16 ''<h'' @ show_nat i), Many 0 not_gt, Lit [62]]"

definition a11y_h1 :: "nat \<Rightarrow> acc \<Rightarrow> acc" where
  "a11y_h1 h1Count st =
     (if h1Count = 0 then issue Warning (u16 ''Mangler H1-overskrift'') (deduct 5 st) else st)"

text \<open>The loop over \<open>headings\<close> that looks for the first skipped level and then breaks.\<close>

fun a11y_skipped_level :: "nat \<Rightarrow> (nat \<times> nat) list \<Rightarrow> acc \<Rightarrow> acc" where
  "a11y_skipped_level lastLevel [] st = st"
| "a11y_skipped_level lastLevel ((level, count) # hs) st =
     (if count > 0 then
        (if lastLevel > 0 \<and> level > lastLevel + 1 then
           issue Info (u16 ''Overskriftsniv'' @ [229] @ u16 '' hoppes over (H'' @ show_nat (lastLevel) @ u16 '' til H'' @ show_nat (level) @ u16 '')'')
             (deduct 3 st)
         else a11y_skipped_level level hs st)
      else a11y_skipped_level lastLevel hs st)"

fun join :: "jsstring \<Rightarrow> jsstring list \<Rightarrow> jsstring" where
  "join sep [] = []"
| "join sep [x] = x"
| "join sep (x # xs) = x @ sep @ join sep xs"

subsection \<open>Landmarks, links and the remaining checks\<close>

definition landmark_re :: "string \<Rightarrow> string \<Rightarrow> re" where
  \<comment> \<open>\<open>/<tag[^>]*>|role=["']role["']/i\<close>\<close>
  "landmark_re tag role = Alt (tag_re tag) (attr ''role'' role)"

definition a11y_landmark_count :: "nat \<Rightarrow> acc \<Rightarrow> acc" where
  "a11y_landmark_count landmarks st =
     (if landmarks < 2 then
        issue Warning (u16 ''F'' @ [229] @ u16 '' ARIA landmarks (main, nav, header, footer)'') (deduct 6 st)
      else if landmarks = 4 then detail (u16 ''God bruk av semantiske landmarks'') st
      else st)"

definition skip_href_re :: re where
  \<comment> \<open>\<open>/<a[^>]*href=["']#(main|content|skip)[^"']*["'][^>]*>/i\<close>\<close>
  "skip_href_re = seqs [Lit (u16 ''<a''), Many 0 not_gt, Lit (u16 ''href=''), Cls quote,
     Lit [35], Alt (Lit (u16 ''main'')) (Alt (Lit (u16 ''content'')) (Lit (u16 ''skip''))),
     Many 0 not_quote, Cls quote, Many 0 not_gt, Lit [62]]"

definition skip_text_re :: re where
  \<comment> \<open>\<open>/skip.*(link|nav|content)/i\<close>\<close>
  "skip_text_re = seqs [Lit (u16 ''skip''), Many 0 dot,
     Alt (Lit (u16 ''link'')) (Alt (Lit (u16 ''nav'')) (Lit (u16 ''content'')))]"

definition a11y_skip_link :: "bool \<Rightarrow> nat \<Rightarrow> acc \<Rightarrow> acc" where
  "a11y_skip_link hasSkipLink htmlLength st =
     (if \<not> hasSkipLink \<and> htmlLength > 10000 then
        issue Info (u16 ''Mangler skip-link for tastaturnavigasjon'') (deduct 5 st)
      else st)"

definition anchor_re :: re where
  \<comment> \<open>\<open>/<a[^>]*>[\s\S]*?<\/a>/gi\<close>\<close>
  "anchor_re = seqs [Lit (u16 ''<a''), Many 0 not_gt, Lit [62], Few any_cu, Lit (u16 ''</a>'')]"

definition any_tag_re :: re where
  \<comment> \<open>\<open>/<[^>]*>/g\<close>\<close>
  "any_tag_re = seqs [Lit [60], Many 0 not_gt, Lit [62]]"

definition bad_link_text :: "jsstring \<Rightarrow> bool" where
  "bad_link_text link =
     (let text = toLowerCase (trim (remove_all any_tag_re link))
      in text \<in> set [u16 ''klikk her'', u16 ''les mer'', u16 ''her'', u16 ''link'',
                      u16 ''click here'', u16 ''read more''])"

definition a11y_link_text :: "nat \<Rightarrow> acc \<Rightarrow> acc" where
  "a11y_link_text badLinkTexts st =
     (if badLinkTexts > 3 then
        issue Info (show_nat (badLinkTexts) @ u16 '' lenker har generisk tekst ('' @ [34] @ u16 ''klikk her'' @ [34] @ u16 '', '' @ [34] @ u16 ''les mer'' @ [34] @ u16 '')'')
          (deduct 5 st)
      else st)"

definition outline_none_re :: re where
  \<comment> \<open>\<open>/outline:\s*none|outline:\s*0(?!\d)/gi\<close>\<close>
  "outline_none_re =
     Alt (seqs [Lit (u16 ''outline:''), Many 0 is_space, Lit (u16 ''none'')])
         (seqs [Lit (u16 ''outline:''), Many 0 is_space, Lit [48], NLook (Cls digit)])"

definition a11y_focus :: "bool \<Rightarrow> bool \<Rightarrow> acc \<Rightarrow> acc" where
  "a11y_focus hasOutlineNone hasFocusStyles st =
     (if hasOutlineNone \<and> \<not> hasFocusStyles then
        issue Warning (u16 ''Focus-indikatorer kan v'' @ [230] @ u16 ''re fjernet uten erstatning'') (deduct 5 st)
      else st)"

definition light_color_re :: re where
  \<comment> \<open>\<open>/color:\s*#[def][def][def]/gi\<close>\<close>
  "light_color_re =
     (let def = (\<lambda>c. c \<in> set [100, 101, 102, 68, 69, 70])
      in seqs [Lit (u16 ''color:''), Many 0 is_space, Lit [35], Cls def, Cls def, Cls def])"

definition a11y_contrast :: "nat \<Rightarrow> acc \<Rightarrow> acc" where
  "a11y_contrast veryLightColors st =
     (if veryLightColors > 3 then
        issue Info (u16 ''Mulig d'' @ [229] @ u16 ''rlig fargekontrast (veldig lyse farger)'') (deduct 3 st)
      else st)"

definition a11y_tables :: "nat \<Rightarrow> nat \<Rightarrow> acc \<Rightarrow> acc" where
  "a11y_tables tables tablesWithHeaders st =
     (if tables > 0 \<and> tablesWithHeaders = 0 then
        issue Warning (u16 ''Tabeller mangler header-celler (th)'') (deduct 5 st)
      else st)"

definition onclick_re :: "string \<Rightarrow> re" where
  \<comment> \<open>\<open>/<tag[^>]*onclick/gi\<close>\<close>
  "onclick_re tag = seqs [Lit (60 # u16 tag), Many 0 not_gt, Lit (u16 ''onclick'')]"

definition a11y_clickable :: "nat \<Rightarrow> nat \<Rightarrow> acc \<Rightarrow> acc" where
  "a11y_clickable divsWithOnclick spansWithOnclick st =
     (if divsWithOnclick + spansWithOnclick > 2 then
        issue Warning (u16 ''Klikkbare div/span-elementer b'' @ [248] @ u16 ''r v'' @ [230] @ u16 ''re buttons eller lenker'')
          (deduct 4 st)
      else st)"

definition tabindex_re :: re where
  \<comment> \<open>\<open>/tabindex=["'][1-9]/gi\<close>\<close>
  "tabindex_re = seqs [Lit (u16 ''tabindex=''), Cls quote, Cls (\<lambda>c. 49 \<le> c \<and> c \<le> 57)]"

definition a11y_tabindex :: "nat \<Rightarrow> acc \<Rightarrow> acc" where
  "a11y_tabindex positiveTabindex st =
     (if positiveTabindex > 0 then
        issue Info (u16 ''Positiv tabindex kan forstyrre naturlig tab-rekkef'' @ [248] @ u16 ''lge'') (deduct 3 st)
      else st)"

definition textInputs :: "jsstring \<Rightarrow> jsstring list" where
  "textInputs html = filter (\<lambda>i. \<not> test input_type_re i) (match_g (tag_re ''input'') html)"

definition inputsWithAriaLabel :: "jsstring \<Rightarrow> nat" where
  "inputsWithAriaLabel html =
     length (filter (\<lambda>i. test (Lit (u16 ''aria-label='')) i \<or>
                          test (Lit (u16 ''aria-labelledby='')) i) (textInputs html))"

text \<open>
  The constant \<open>imagesWithEmptyAlt\<close> of the source is computed and never read.
  \<open>headings[0].count\<close> is the number of matches of \<open>heading_re 1\<close>.

  \<open>a11y_run\<close> is the body of \<open>analyzeAccessibility\<close> up to its \<open>return\<close>, with the
  image block as a parameter; \<open>analyzeAccessibility\<close> runs it with \<open>a11y_image_alt\<close>,
  the image block of the source.
\<close>

definition a11y_imgTags :: "jsstring \<Rightarrow> jsstring list" where
  "a11y_imgTags html = match_g (tag_re ''img'') html"

definition a11y_images_without_alt :: "jsstring \<Rightarrow> jsstring list" where
  "a11y_images_without_alt html =
     filter (\<lambda>img. \<not> test (Lit (u16 ''alt='')) img) (a11y_imgTags html)"

definition a11y_headings :: "jsstring \<Rightarrow> (nat \<times> nat) list" where
  "a11y_headings html =
     map (\<lambda>i. (i, length (match_g (heading_re i) html))) [1, 2, 3, 4, 5, 6]"

definition a11y_landmarks_found :: "jsstring \<Rightarrow> nat" where
  "a11y_landmarks_found html =
     length (filter (\<lambda>b. b)
       [test (landmark_re ''main'' ''main'') html,
        test (landmark_re ''nav'' ''navigation'') html,
        test (landmark_re ''header'' ''banner'') html,
        test (landmark_re ''footer'' ''contentinfo'') html])"

definition a11y_has_skip_link :: "jsstring \<Rightarrow> bool" where
  "a11y_has_skip_link html = (test skip_href_re html \<or> test skip_text_re html)"

definition a11y_run ::
  "(nat \<Rightarrow> nat \<Rightarrow> acc \<Rightarrow> acc) \<Rightarrow> (jsstring \<Rightarrow> (jsstring \<Rightarrow> bool) option) \<Rightarrow> jsstring \<Rightarrow>
     error + acc" where
  "a11y_run image_block regexp html =
     (let htmlLang = match html_lang_re html;
          imgTags = a11y_imgTags html;
          imagesWithoutAlt = a11y_images_without_alt html;
          headings = a11y_headings html;
          landmarks = a11y_landmarks_found html;
          hasSkipLink = a11y_has_skip_link html;
          links = match_g anchor_re html;
          badLinkTexts = filter bad_link_text links;
          hasOutlineNone = test outline_none_re html;
          hasFocusStyles = test (Lit (u16 '':focus'')) html;
          veryLightColors = match_g light_color_re html;
          tables = match_g (tag_re ''table'') html;
          tablesWithHeaders = match_g (tag_re ''th'') html;
          divsWithOnclick = length (match_g (onclick_re ''div'') html);
          spansWithOnclick = length (match_g (onclick_re ''span'') html);
          positiveTabindex = match_g tabindex_re html
      in case filter_e (without_label regexp html) (textInputs html) of
           Inl e \<Rightarrow> Inl e
         | Inr inputsWithoutLabel \<Rightarrow>
             Inr (a11y_tabindex (length positiveTabindex)
                 (a11y_clickable divsWithOnclick spansWithOnclick
                 (a11y_tables (length tables) (length tablesWithHeaders)
                 (a11y_contrast (length veryLightColors)
                 (a11y_focus hasOutlineNone hasFocusStyles
                 (a11y_link_text (length badLinkTexts)
                 (a11y_skip_link hasSkipLink (length html)
                 (a11y_landmark_count landmarks
                 (a11y_skipped_level 0 headings
                 (a11y_h1 (length (match_g (heading_re 1) html))
                 (a11y_form_labels (length inputsWithoutLabel) (inputsWithAriaLabel html)
                 (image_block (length imagesWithoutAlt) (length imgTags)
                 (a11y_lang htmlLang start))))))))))))))"

definition a11y_locals ::
  "(jsstring \<Rightarrow> (jsstring \<Rightarrow> bool) option) \<Rightarrow> jsstring \<Rightarrow> error + acc" where
  "a11y_locals regexp html = a11y_run a11y_image_alt regexp html"

definition analyzeAccessibility ::
  "(jsstring \<Rightarrow> (jsstring \<Rightarrow> bool) option) \<Rightarrow> jsstring \<Rightarrow>
     error + a11y_metrics DimensionResult" where
  "analyzeAccessibility regexp html =
     (case a11y_locals regexp html of
        Inl e \<Rightarrow> Inl e
      | Inr st \<Rightarrow>
          Inr (finish st
            \<lparr> a11y_hasLang = (match html_lang_re html \<noteq> None),
              a11y_imagesWithoutAlt = length (a11y_images_without_alt html),
              a11y_landmarks = a11y_landmarks_found html,
              a11y_hasSkipLink = a11y_has_skip_link html,
              a11y_headingStructure =
                join (u16 '', '')
                  (map (\<lambda>(level, count). (u16 ''H'' @ show_nat (level) @ u16 '':'' @ show_nat (count)))
                     (filter (\<lambda>(level, count). count > 0) (a11y_headings html))) \<rparr>))"

section \<open>Aggregation\<close>

subsection \<open>Double-precision arithmetic\<close>

text \<open>
  A JavaScript Number is an IEEE 754 double. A finite double is a rational number, and
  every arithmetic operation returns the exact result rounded to the nearest double, ties
  to the even significand. \<open>fl\<close> is that rounding for the normal range (magnitudes
  from \<open>2^-1022\<close> up to the overflow threshold), which is where the handler computes:
  \<open>binade x\<close> is the exponent \<open>e\<close> with \<open>2^e \<le> x < 2^(e+1)\<close>, and the doubles of that
  binade are the multiples of \<open>2^(e-52)\<close>.
\<close>

fun bits :: "nat \<Rightarrow> nat" where
  "bits n = (if n = 0 then 0 else Suc (bits (n div 2)))"

declare bits.simps [simp del]

definition binade :: "rat \<Rightarrow> int" where
  "binade x =
     (if 1 \<le> x then int (bits (nat \<lfloor>x\<rfloor>)) - 1
      else - int (bits (nat (\<lceil>1 / x\<rceil> - 1))))"

definition pow2 :: "int \<Rightarrow> rat" where
  "pow2 e = (if 0 \<le> e then 2 ^ nat e else 1 / 2 ^ nat (- e))"

definition round_even :: "rat \<Rightarrow> int" where
  "round_even x =
     (let f = \<lfloor>x\<rfloor>; d = x - of_int f
      in if d < 1 / 2 then f
         else if d > 1 / 2 then f + 1
         else if even f then f else f + 1)"

definition fl :: "rat \<Rightarrow> rat" where
  "fl x =
     (if x = 0 then 0
      else (let u = pow2 (binade \<bar>x\<bar> - 52)
            in sgn x * of_int (round_even (\<bar>x\<bar> / u)) * u))"

definition dmul :: "rat \<Rightarrow> rat \<Rightarrow> rat" where
  "dmul a b = fl (a * b)"

definition dadd :: "rat \<Rightarrow> rat \<Rightarrow> rat" where
  "dadd a b = fl (a + b)"

text \<open>\<open>Math.round\<close>: the nearest integer, a tie going up.\<close>

definition Math_round :: "rat \<Rightarrow> int" where
  "Math_round x = \<lfloor>x + 1 / 2\<rfloor>"

subsection \<open>The handler's report\<close>

text \<open>
  The weighted total of the handler. The literals \<open>0.25\<close>, \<open>0.20\<close> and \<open>0.15\<close> denote
  the doubles nearest to them; the sum is evaluated from left to right.
\<close>

definition totalScore :: "int \<Rightarrow> int \<Rightarrow> int \<Rightarrow> int \<Rightarrow> int \<Rightarrow> int" where
  "totalScore performance seo security mobile accessibility =
     Math_round
       (dadd (dadd (dadd (dadd
          (dmul (of_int performance) (fl (25 / 100)))
          (dmul (of_int seo) (fl (25 / 100))))
          (dmul (of_int security) (fl (20 / 100))))
          (dmul (of_int mobile) (fl (15 / 100))))
          (dmul (of_int accessibility) (fl (15 / 100))))"

definition getStatus :: "int \<Rightarrow> jsstring" where
  "getStatus s =
     (if s \<ge> 90 then u16 ''green''
      else if s \<ge> 70 then u16 ''yellow''
      else if s \<ge> 50 then u16 ''orange''
      else u16 ''red'')"

record category =
  cat_score :: int
  cat_status :: jsstring
  cat_details :: "finding list"
  cat_benchmark :: int

record AuditReport =
  report_url :: jsstring
  report_responseTime :: int
  report_totalScore :: int
  performance :: category
  seo :: category
  security :: category
  mobile :: category
  accessibility :: category

definition categoryOf :: "'m DimensionResult \<Rightarrow> int \<Rightarrow> category" where
  "categoryOf r benchmark =
     \<lparr> cat_score = score r, cat_status = getStatus (score r), cat_details = details r,
       cat_benchmark = benchmark \<rparr>"

text \<open>
  The part of \<open>handler\<close> after the page has been fetched: the response time, the body and
  the headers of the response are its inputs, with the address and its parsed form. An
  error thrown by an analyzer is caught by the handler, which then answers with status
  500; that is \<open>Inl\<close> here. The report's \<open>analyzedAt\<close> is the clock's and is left out.
\<close>

definition report ::
  "(jsstring \<Rightarrow> url option) \<Rightarrow> (jsstring \<Rightarrow> (jsstring \<Rightarrow> bool) option) \<Rightarrow>
     jsstring \<Rightarrow> url \<Rightarrow> int \<Rightarrow> headers \<Rightarrow> jsstring \<Rightarrow> error + AuditReport" where
  "report new_URL regexp address parsedUrl responseTime hs html =
     (case analyzePerformance new_URL responseTime html (extractResources html) of
        Inl e \<Rightarrow> Inl e
      | Inr performanceResult \<Rightarrow>
          (let seoResult = analyzeSEO html parsedUrl;
               securityResult = analyzeSecurity parsedUrl hs html
           in case analyzeMobile html of
                Inl e \<Rightarrow> Inl e
              | Inr mobileResult \<Rightarrow>
                  (case analyzeAccessibility regexp html of
                     Inl e \<Rightarrow> Inl e
                   | Inr accessibilityResult \<Rightarrow>
                       Inr \<lparr> report_url = address,
                             report_responseTime = responseTime,
                             report_totalScore =
                               totalScore (score performanceResult) (score seoResult)
                                 (score securityResult) (score mobileResult)
                                 (score accessibilityResult),
                             performance = categoryOf performanceResult 68,
                             seo = categoryOf seoResult 72,
                             security = categoryOf securityResult 65,
                             mobile = categoryOf mobileResult 78,
                             accessibility = categoryOf accessibilityResult 62 \<rparr>)))"

section \<open>Notions used in the properties\<close>

text \<open>
  The two shapes of a finding: what \<open>details.push\<close> adds and what \<open>issues.push\<close> adds.
  \<open>has_severity\<close> says that the object has a \<open>severity\<close> field.
\<close>

fun is_success :: "finding \<Rightarrow> bool" where
  "is_success (With_type l m) = (l = Success)"
| "is_success (With_severity l m) = False"

fun is_issue :: "finding \<Rightarrow> bool" where
  "is_issue (With_severity l m) = (l = Info \<or> l = Warning \<or> l = Critical)"
| "is_issue (With_type l m) = False"

fun has_severity :: "finding \<Rightarrow> bool" where
  "has_severity (With_severity l m) = True"
| "has_severity (With_type l m) = False"

text \<open>
  \<open>grows a b\<close>: the locals \<open>b\<close> come from the locals \<open>a\<close> by deductions and pushes only.
  The score has not risen, and there is a list \<open>n\<close> of new findings, each a success
  finding or an issue finding, that the run has inserted in this order: \<open>details\<close> has
  been appended the success findings of \<open>n\<close> and \<open>issues\<close> the issue findings of \<open>n\<close>,
  both in the order of \<open>n\<close>.
\<close>

definition grows :: "acc \<Rightarrow> acc \<Rightarrow> bool" where
  "grows a b \<longleftrightarrow>
     acc_score b \<le> acc_score a \<and>
     (\<exists>n. list_all (\<lambda>f. is_success f \<or> is_issue f) n \<and>
          acc_log b = acc_log a @ n \<and>
          acc_details b = acc_details a @ filter is_success n \<and>
          acc_issues b = acc_issues a @ filter is_issue n)"

text \<open>
  Text search without regard to the case of ASCII letters: \<open>contains_ci p s\<close> says that
  \<open>p\<close> occurs in \<open>s\<close>, and \<open>contains_tag name html\<close> that \<open>html\<close> has the text
  \<open><name\<close> with a \<open>>\<close> at some place after it.
\<close>

definition contains_ci :: "jsstring \<Rightarrow> jsstring \<Rightarrow> bool" where
  "contains_ci p s = list_ex (lit p) (suffixes s)"

definition contains_tag :: "string \<Rightarrow> jsstring \<Rightarrow> bool" where
  "contains_tag name html =
     list_ex (\<lambda>t. lit (60 # u16 name) t \<and> 62 \<in> set (drop (Suc (length name)) t)) (suffixes html)"

text \<open>
  The weighted total as the specification writes it, in exact arithmetic:
  \<open>round(performance * 0.25 + seo * 0.25 + security * 0.20 + mobile * 0.15 +
  accessibility * 0.15)\<close>.
\<close>

definition weighted_total :: "int \<Rightarrow> int \<Rightarrow> int \<Rightarrow> int \<Rightarrow> int \<Rightarrow> int" where
  "weighted_total p s sec m a =
     \<lfloor>(of_int (25 * p + 25 * s + 20 * sec + 15 * m + 15 * a) :: rat) / 100 + 1 / 2\<rfloor>"

text \<open>
  A header collection with no security header: none of the names that the security
  analyzer looks up for a deduction of its own.
\<close>

definition security_header_names :: "jsstring list" where
  "security_header_names =
     [u16 ''strict-transport-security'', u16 ''content-security-policy'',
      u16 ''x-frame-options'', u16 ''x-content-type-options'', u16 ''referrer-policy'',
      u16 ''permissions-policy'', u16 ''feature-policy'', u16 ''x-xss-protection'']"

definition no_security_headers :: "headers \<Rightarrow> bool" where
  "no_security_headers hs =
     list_all (\<lambda>(key, v). toLowerCase key \<notin> set security_header_names) hs"

text \<open>
  The deductions of the security analyzer that do not come from a missing security
  header: mixed content, exposed e-mail addresses, forms that post over HTTP, and the
  \<open>Server\<close> and \<open>X-Powered-By\<close> headers.
\<close>

definition content_deductions :: "url \<Rightarrow> headers \<Rightarrow> jsstring \<Rightarrow> int" where
  "content_deductions parsedUrl hs html =
     (if match_g http_resource_re html \<noteq> [] \<and> protocol parsedUrl = u16 ''https:'' then 5 else 0) +
     (if length (match_g email_re html) > 3 then 2 else 0) +
     (if filter (test http_action_re) (match_g (tag_re ''form'') html) \<noteq> [] then 8 else 0) +
     (case headerObj hs (u16 ''server'') of
        None \<Rightarrow> 0
      | Some v \<Rightarrow> if v \<noteq> [] \<and> test server_name_re v \<and> test version_re v then 2 else 0) +
     (if truthy (headerObj hs (u16 ''x-powered-by'')) then 2 else 0)"

text \<open>
  The number \<open>u\<close> of form inputs (other than the hidden, submit, button and image types)
  that have neither a label nor an \<open>aria-label\<close> or \<open>aria-labelledby\<close> attribute.
\<close>

definition unlabeled_inputs ::
  "(jsstring \<Rightarrow> (jsstring \<Rightarrow> bool) option) \<Rightarrow> jsstring \<Rightarrow> error + nat" where
  "unlabeled_inputs regexp html =
     (case filter_e (without_label regexp html) (textInputs html) of
        Inl e \<Rightarrow> Inl e
      | Inr inputsWithoutLabel \<Rightarrow>
          Inr (length (filter (\<lambda>i. \<not> (test (Lit (u16 ''aria-label='')) i \<or>
                                          test (Lit (u16 ''aria-labelledby='')) i))
                         inputsWithoutLabel)))"

text \<open>
  \<open>produced a r\<close>: the result \<open>r\<close> is what \<open>finish\<close> makes of locals that have grown
  from the locals \<open>a\<close>.
\<close>

definition produced :: "acc \<Rightarrow> 'm DimensionResult \<Rightarrow> bool" where
  "produced a r \<longleftrightarrow> (\<exists>st m. grows a st \<and> r = finish st m)"

text \<open>The part of \<open>script_re\<close> that follows its first \<open>[^>]*\<close>.\<close>

definition script_tail :: re where
  "script_tail = seqs [Opt (seqs [Lit (u16 ''src=''), Cls quote, Cap (Many 1 not_quote), Cls quote]),
     Many 0 not_gt, Lit [62]]"

text \<open>
  The score that the specification gives for a response without security headers: 100
  less the seven deductions for the missing headers, and less 30 when the protocol is
  not HTTPS, not below 0.
\<close>

definition missing_header_score :: "url \<Rightarrow> int" where
  "missing_header_score parsedUrl =
     max 0 (100 - (12 + 10 + 8 + 6 + 4 + 4 + 2) -
            (if protocol parsedUrl = u16 ''https:'' then 0 else 30))"

text \<open>
  \<open>two_groups_in_order inserted fs\<close>: of the findings \<open>inserted\<close>, listed in the order of
  their insertion, each is a success finding or an issue finding, and \<open>fs\<close> is the
  success findings among them followed by the issue findings among them, each of the two
  groups in the order of insertion.
\<close>

definition two_groups_in_order :: "finding list \<Rightarrow> finding list \<Rightarrow> bool" where
  "two_groups_in_order inserted fs \<longleftrightarrow>
     list_all (\<lambda>f. is_success f \<or> is_issue f) inserted \<and>
     fs = filter is_success inserted @ filter is_issue inserted"





section \<open>The analyzers written out\<close>

text \<open>
  Each analyzer is its run followed by its \<open>return\<close>. Written out, with the constants
  of the source bound once, the five analyzers read as follows.
\<close>

lemma analyzePerformance_body:
  "analyzePerformance new_URL responseTime html res =
     (let htmlSize = length html;
          totalScripts = length (scripts res);
          blockingScripts =
            length (filter (\<lambda>s. \<not> isInline s \<and> \<not> isAsync s \<and> \<not> isDefer s) (scripts res));
          externalStylesheets = length (stylesheets res);
          inlineStyleCount = length (match_g (tag_re ''style'') html);
          inlineCSSSize = estimateInlineCSS html;
          hasCriticalCSS = test critical_css_re html;
          hasPreconnect = test (link_rel_re ''preconnect'') html;
          hasDNSPrefetch = test (link_rel_re ''dns-prefetch'') html;
          st = perf_preconnect hasPreconnect hasDNSPrefetch
                (perf_critical_css hasCriticalCSS externalStylesheets
                (perf_images (images res)
                (perf_inline_css inlineCSSSize
                (perf_stylesheets externalStylesheets
                (perf_total_scripts totalScripts
                (perf_blocking blockingScripts
                (perf_html_size htmlSize
                (perf_response_time responseTime start))))))))
      in case filter_e (is_third_party new_URL html) (scripts res) of
           Inl e \<Rightarrow> Inl e
         | Inr thirdParty \<Rightarrow>
             Inr (finish
               (perf_iframes (length (filter (\<lambda>i. \<not> frameLazy i) (iframes res)))
                 (perf_third_party (length thirdParty) st))
               \<lparr> perf_responseTime = responseTime,
                 perf_htmlSize = round_kb htmlSize,
                 perf_totalScripts = totalScripts,
                 perf_blockingScripts = blockingScripts,
                 perf_totalStylesheets = externalStylesheets + inlineStyleCount,
                 perf_totalImages = length (images res) \<rparr>))"
  unfolding analyzePerformance_def perf_locals_def perf_run_def Let_def
  by (cases "filter_e (is_third_party new_URL html) (scripts res)") (simp_all only: sum.case)

lemma analyzeSEO_body:
  "analyzeSEO html parsedUrl =
     (let titleMatch = match title_re html;
          descMatch = (case match description_re html of
                         Some m \<Rightarrow> Some m
                       | None \<Rightarrow> match description_re2 html);
          h1Matches = match_g h1_block_re html;
          h2Matches = match_g (tag_re ''h2'') html;
          canonicalMatch = match canonical_re html;
          ogScore = length (filter (\<lambda>m. m \<noteq> None)
            [match (meta_re ''property'' ''og:title'') html,
             match (meta_re ''property'' ''og:description'') html,
             match (meta_re ''property'' ''og:image'') html,
             match (meta_re ''property'' ''og:url'') html]);
          twitterCard = match (meta_re ''name'' ''twitter:card'') html;
          imgTags = match_g (tag_re ''img'') html;
          imagesWithoutAlt = length (filter (\<lambda>img. \<not> test (Lit (u16 ''alt='')) img) imgTags);
          hasJsonLd = test json_ld_re html;
          hasMicrodata = test microdata_re html;
          hasLang = test html_lang_re html;
          robotsMeta = match robots_re html;
          internalLinks = length (match_g internal_link_re html);
          st = seo_internal_links internalLinks (length html)
                (seo_robots robotsMeta
                (seo_lang hasLang
                (seo_structured_data hasJsonLd hasMicrodata
                (seo_image_alt imagesWithoutAlt
                (seo_twitter (twitterCard \<noteq> None)
                (seo_open_graph ogScore
                (seo_canonical (canonicalMatch \<noteq> None)
                (seo_h2 (length h2Matches) (length html)
                (seo_h1 (length h1Matches)
                (seo_description descMatch
                (seo_title titleMatch start)))))))))))
      in finish st
           \<lparr> seo_titleLength =
               (case titleMatch of None \<Rightarrow> 0 | Some m \<Rightarrow> length (trim (group1 m))),
             seo_descriptionLength =
               (case descMatch of None \<Rightarrow> 0 | Some m \<Rightarrow> length (group1 m)),
             seo_h1Count = length h1Matches,
             seo_h2Count = length h2Matches,
             seo_imagesWithoutAlt = imagesWithoutAlt,
             seo_hasStructuredData = (hasJsonLd \<or> hasMicrodata),
             seo_hasOpenGraph = (ogScore = 4) \<rparr>)"
  unfolding analyzeSEO_def seo_locals_def seo_run_def seo_titleMatch_def seo_descMatch_def seo_ogScore_def
    seo_images_without_alt_def Let_def
  by (rule refl)

lemma analyzeSecurity_body:
  "analyzeSecurity parsedUrl hs html =
     (let obj = headerObj hs;
          hstsHeader = obj (u16 ''strict-transport-security'');
          cspHeader = obj (u16 ''content-security-policy'');
          xfoHeader = obj (u16 ''x-frame-options'');
          xctoHeader = obj (u16 ''x-content-type-options'');
          httpResources = match_g http_resource_re html;
          hasExposedEmail = match_g email_re html;
          forms = match_g (tag_re ''form'') html;
          formsWithoutHTTPS = length (filter (test http_action_re) forms);
          passwordFields = match_g password_field_re html;
          passwordWithoutAutocomplete =
            length (filter (\<lambda>f. \<not> test (Lit (u16 ''autocomplete='')) f) passwordFields);
          st = sec_powered_by (obj (u16 ''x-powered-by''))
                (sec_server (obj (u16 ''server''))
                (sec_password passwordWithoutAutocomplete
                (sec_forms formsWithoutHTTPS
                (sec_email (length hasExposedEmail)
                (sec_mixed_content (length httpResources) parsedUrl
                (sec_xss (obj (u16 ''x-xss-protection''))
                (sec_permissions (obj (u16 ''permissions-policy'')) (obj (u16 ''feature-policy''))
                (sec_referrer (obj (u16 ''referrer-policy''))
                (sec_xcto xctoHeader
                (sec_xfo xfoHeader cspHeader
                (sec_csp cspHeader
                (sec_hsts hstsHeader
                (sec_https parsedUrl start)))))))))))))
      in finish st
           \<lparr> https = (protocol parsedUrl = u16 ''https:''),
             hsts = truthy hstsHeader,
             csp = truthy cspHeader,
             xfo = truthy xfoHeader,
             xcto = truthy xctoHeader \<rparr>)"
  unfolding analyzeSecurity_def sec_locals_def Let_def
  by (rule refl)

lemma analyzeMobile_body:
  "analyzeMobile html =
     (let viewportMatch = match viewport_re html;
          smallClickTargets = match_g font_size_re html;
          smallButtons = length (match_g padding_re html);
          imgTags = match_g (tag_re ''img'') html;
          responsiveImages = length (filter (test (Lit (u16 ''srcset=''))) imgTags);
          pictureElements = length (match_g (tag_re ''picture'') html);
          mediaQueries = match_g media_query_re html;
          mobileQueries = length (filter (test mobile_query_re) mediaQueries);
          fixedWidths = match_g fixed_width_re html;
          appleTouchIcon = test (link_rel_re ''apple-touch-icon'') html;
          favicon = test (link_rel_re ''icon'') html;
          hasManifest = test (link_rel_re ''manifest'') html;
          hasThemeColor = test (meta_re ''name'' ''theme-color'') html
      in case filter_e (number_test (\<lambda>size. size < 12)) smallClickTargets of
           Inl e \<Rightarrow> Inl e
         | Inr verySmallFonts \<Rightarrow>
             (case filter_e (number_test (\<lambda>w. w > 500)) fixedWidths of
                Inl e \<Rightarrow> Inl e
              | Inr largeFixedWidths \<Rightarrow>
                  Inr (finish
                    (mob_theme_color hasThemeColor
                    (mob_manifest hasManifest
                    (mob_favicon favicon
                    (mob_touch_icon appleTouchIcon
                    (mob_fixed_widths (length largeFixedWidths)
                    (mob_media_queries mobileQueries
                    (mob_responsive_images (length imgTags) responsiveImages pictureElements
                    (mob_tap_targets smallButtons
                    (mob_small_fonts (length verySmallFonts)
                    (mob_viewport viewportMatch start))))))))))
                    \<lparr> mob_hasViewport = (viewportMatch \<noteq> None),
                      mob_responsiveImages = responsiveImages,
                      mob_totalImages = length imgTags,
                      mob_mediaQueries = mobileQueries,
                      mob_hasManifest = hasManifest,
                      mob_hasTouchIcon = appleTouchIcon \<rparr>)))"
  unfolding analyzeMobile_def mob_locals_def mob_run_def mob_imgTags_def mob_responsive_def
    mob_mobileQueries_def Let_def
  by (cases "filter_e (number_test (\<lambda>size. size < 12)) (match_g font_size_re html)";
      cases "filter_e (number_test (\<lambda>w. w > 500)) (match_g fixed_width_re html)")
     (simp_all only: sum.case)

lemma analyzeAccessibility_body:
  "analyzeAccessibility regexp html =
     (let htmlLang = match html_lang_re html;
          imgTags = match_g (tag_re ''img'') html;
          imagesWithoutAlt = filter (\<lambda>img. \<not> test (Lit (u16 ''alt='')) img) imgTags;
          headings = map (\<lambda>i. (i, length (match_g (heading_re i) html))) [1, 2, 3, 4, 5, 6];
          landmarks = length (filter (\<lambda>b. b)
            [test (landmark_re ''main'' ''main'') html,
             test (landmark_re ''nav'' ''navigation'') html,
             test (landmark_re ''header'' ''banner'') html,
             test (landmark_re ''footer'' ''contentinfo'') html]);
          hasSkipLink = (test skip_href_re html \<or> test skip_text_re html);
          links = match_g anchor_re html;
          badLinkTexts = filter bad_link_text links;
          hasOutlineNone = test outline_none_re html;
          hasFocusStyles = test (Lit (u16 '':focus'')) html;
          veryLightColors = match_g light_color_re html;
          tables = match_g (tag_re ''table'') html;
          tablesWithHeaders = match_g (tag_re ''th'') html;
          divsWithOnclick = length (match_g (onclick_re ''div'') html);
          spansWithOnclick = length (match_g (onclick_re ''span'') html);
          positiveTabindex = match_g tabindex_re html
      in case filter_e (without_label regexp html) (textInputs html) of
           Inl e \<Rightarrow> Inl e
         | Inr inputsWithoutLabel \<Rightarrow>
             Inr (finish
               (a11y_tabindex (length positiveTabindex)
               (a11y_clickable divsWithOnclick spansWithOnclick
               (a11y_tables (length tables) (length tablesWithHeaders)
               (a11y_contrast (length veryLightColors)
               (a11y_focus hasOutlineNone hasFocusStyles
               (a11y_link_text (length badLinkTexts)
               (a11y_skip_link hasSkipLink (length html)
               (a11y_landmark_count landmarks
               (a11y_skipped_level 0 headings
               (a11y_h1 (length (match_g (heading_re 1) html))
               (a11y_form_labels (length inputsWithoutLabel) (inputsWithAriaLabel html)
               (a11y_image_alt (length imagesWithoutAlt) (length imgTags)
               (a11y_lang htmlLang start)))))))))))))
               \<lparr> a11y_hasLang = (htmlLang \<noteq> None),
                 a11y_imagesWithoutAlt = length imagesWithoutAlt,
                 a11y_landmarks = landmarks,
                 a11y_hasSkipLink = hasSkipLink,
                 a11y_headingStructure =
                   join (u16 '', '')
                     (map (\<lambda>(level, count). (u16 ''H'' @ show_nat (level) @ u16 '':'' @ show_nat (count)))
                        (filter (\<lambda>(level, count). count > 0) headings)) \<rparr>))"
  unfolding analyzeAccessibility_def a11y_locals_def a11y_run_def a11y_imgTags_def a11y_images_without_alt_def
    a11y_headings_def a11y_landmarks_found_def a11y_has_skip_link_def Let_def
  by (cases "filter_e (without_label regexp html) (textInputs html)") (simp_all only: sum.case)


section \<open>Deductions and pushes\<close>

named_theorems grows_steps

lemma grows_refl: "grows a a"
  unfolding grows_def by (auto intro: exI [of _ "[]"])

lemma grows_deduct: "0 \<le> n \<Longrightarrow> grows a b \<Longrightarrow> grows a (deduct n b)"
  by (auto simp: grows_def deduct_def)

lemma grows_issue:
  assumes "l = Info \<or> l = Warning \<or> l = Critical" and "grows a b"
  shows "grows a (issue l m b)"
proof -
  from assms(2) obtain n where n: "list_all (\<lambda>f. is_success f \<or> is_issue f) n"
    "acc_log b = acc_log a @ n" "acc_details b = acc_details a @ filter is_success n"
    "acc_issues b = acc_issues a @ filter is_issue n" and s: "acc_score b \<le> acc_score a"
    unfolding grows_def by blast
  from assms(1) n s show ?thesis
    unfolding grows_def issue_def
    by (auto intro!: exI [of _ "n @ [With_severity l m]"])
qed

lemma grows_detail:
  assumes "grows a b"
  shows "grows a (detail m b)"
proof -
  from assms obtain n where n: "list_all (\<lambda>f. is_success f \<or> is_issue f) n"
    "acc_log b = acc_log a @ n" "acc_details b = acc_details a @ filter is_success n"
    "acc_issues b = acc_issues a @ filter is_issue n" and s: "acc_score b \<le> acc_score a"
    unfolding grows_def by blast
  from n s show ?thesis
    unfolding grows_def detail_def
    by (auto intro!: exI [of _ "n @ [With_type Success m]"])
qed

lemma grows_perf_response_time [grows_steps]: "grows a b \<Longrightarrow> grows a (perf_response_time x1 b)"
  unfolding perf_response_time_def Let_def
  by (auto intro!: grows_issue grows_deduct grows_detail grows_steps split: option.splits)

lemma grows_perf_html_size [grows_steps]: "grows a b \<Longrightarrow> grows a (perf_html_size x1 b)"
  unfolding perf_html_size_def Let_def
  by (auto intro!: grows_issue grows_deduct grows_detail grows_steps split: option.splits)

lemma grows_perf_blocking [grows_steps]: "grows a b \<Longrightarrow> grows a (perf_blocking x1 b)"
  unfolding perf_blocking_def Let_def
  by (auto intro!: grows_issue grows_deduct grows_detail grows_steps split: option.splits)

lemma grows_perf_total_scripts [grows_steps]: "grows a b \<Longrightarrow> grows a (perf_total_scripts x1 b)"
  unfolding perf_total_scripts_def Let_def
  by (auto intro!: grows_issue grows_deduct grows_detail grows_steps split: option.splits)

lemma grows_perf_stylesheets [grows_steps]: "grows a b \<Longrightarrow> grows a (perf_stylesheets x1 b)"
  unfolding perf_stylesheets_def Let_def
  by (auto intro!: grows_issue grows_deduct grows_detail grows_steps split: option.splits)

lemma grows_perf_inline_css [grows_steps]: "grows a b \<Longrightarrow> grows a (perf_inline_css x1 b)"
  unfolding perf_inline_css_def Let_def
  by (auto intro!: grows_issue grows_deduct grows_detail grows_steps split: option.splits)

lemma grows_perf_images [grows_steps]: "grows a b \<Longrightarrow> grows a (perf_images x1 b)"
  unfolding perf_images_def Let_def
  by (auto intro!: grows_issue grows_deduct grows_detail grows_steps split: option.splits)

lemma grows_perf_critical_css [grows_steps]: "grows a b \<Longrightarrow> grows a (perf_critical_css x1 x2 b)"
  unfolding perf_critical_css_def Let_def
  by (auto intro!: grows_issue grows_deduct grows_detail grows_steps split: option.splits)

lemma grows_perf_preconnect [grows_steps]: "grows a b \<Longrightarrow> grows a (perf_preconnect x1 x2 b)"
  unfolding perf_preconnect_def Let_def
  by (auto intro!: grows_issue grows_deduct grows_detail grows_steps split: option.splits)

lemma grows_perf_third_party [grows_steps]: "grows a b \<Longrightarrow> grows a (perf_third_party x1 b)"
  unfolding perf_third_party_def Let_def
  by (auto intro!: grows_issue grows_deduct grows_detail grows_steps split: option.splits)

lemma grows_perf_iframes [grows_steps]: "grows a b \<Longrightarrow> grows a (perf_iframes x1 b)"
  unfolding perf_iframes_def Let_def
  by (auto intro!: grows_issue grows_deduct grows_detail grows_steps split: option.splits)

lemma grows_seo_title [grows_steps]: "grows a b \<Longrightarrow> grows a (seo_title x1 b)"
  unfolding seo_title_def Let_def
  by (auto intro!: grows_issue grows_deduct grows_detail grows_steps split: option.splits)

lemma grows_seo_description [grows_steps]: "grows a b \<Longrightarrow> grows a (seo_description x1 b)"
  unfolding seo_description_def Let_def
  by (auto intro!: grows_issue grows_deduct grows_detail grows_steps split: option.splits)

lemma grows_seo_h1 [grows_steps]: "grows a b \<Longrightarrow> grows a (seo_h1 x1 b)"
  unfolding seo_h1_def Let_def
  by (auto intro!: grows_issue grows_deduct grows_detail grows_steps split: option.splits)

lemma grows_seo_h2 [grows_steps]: "grows a b \<Longrightarrow> grows a (seo_h2 x1 x2 b)"
  unfolding seo_h2_def Let_def
  by (auto intro!: grows_issue grows_deduct grows_detail grows_steps split: option.splits)

lemma grows_seo_canonical [grows_steps]: "grows a b \<Longrightarrow> grows a (seo_canonical x1 b)"
  unfolding seo_canonical_def Let_def
  by (auto intro!: grows_issue grows_deduct grows_detail grows_steps split: option.splits)

lemma grows_seo_open_graph [grows_steps]: "grows a b \<Longrightarrow> grows a (seo_open_graph x1 b)"
  unfolding seo_open_graph_def Let_def
  by (auto intro!: grows_issue grows_deduct grows_detail grows_steps split: option.splits)

lemma grows_seo_twitter [grows_steps]: "grows a b \<Longrightarrow> grows a (seo_twitter x1 b)"
  unfolding seo_twitter_def Let_def
  by (auto intro!: grows_issue grows_deduct grows_detail grows_steps split: option.splits)

lemma grows_seo_image_alt [grows_steps]: "grows a b \<Longrightarrow> grows a (seo_image_alt x1 b)"
  unfolding seo_image_alt_def Let_def
  by (auto intro!: grows_issue grows_deduct grows_detail grows_steps split: option.splits)

lemma grows_seo_structured_data [grows_steps]: "grows a b \<Longrightarrow> grows a (seo_structured_data x1 x2 b)"
  unfolding seo_structured_data_def Let_def
  by (auto intro!: grows_issue grows_deduct grows_detail grows_steps split: option.splits)

lemma grows_seo_lang [grows_steps]: "grows a b \<Longrightarrow> grows a (seo_lang x1 b)"
  unfolding seo_lang_def Let_def
  by (auto intro!: grows_issue grows_deduct grows_detail grows_steps split: option.splits)

lemma grows_seo_robots [grows_steps]: "grows a b \<Longrightarrow> grows a (seo_robots x1 b)"
  unfolding seo_robots_def Let_def
  by (auto intro!: grows_issue grows_deduct grows_detail grows_steps split: option.splits)

lemma grows_seo_internal_links [grows_steps]: "grows a b \<Longrightarrow> grows a (seo_internal_links x1 x2 b)"
  unfolding seo_internal_links_def Let_def
  by (auto intro!: grows_issue grows_deduct grows_detail grows_steps split: option.splits)

lemma grows_sec_https [grows_steps]: "grows a b \<Longrightarrow> grows a (sec_https x1 b)"
  unfolding sec_https_def Let_def
  by (auto intro!: grows_issue grows_deduct grows_detail grows_steps split: option.splits)

lemma grows_hsts_missing [grows_steps]: "grows a b \<Longrightarrow> grows a (hsts_missing b)"
  unfolding hsts_missing_def by (intro grows_issue grows_deduct) simp_all

lemma grows_sec_hsts [grows_steps]: "grows a b \<Longrightarrow> grows a (sec_hsts x1 b)"
  unfolding sec_hsts_def Let_def
  by (auto intro!: grows_issue grows_deduct grows_detail grows_steps split: option.splits)

lemma grows_csp_missing [grows_steps]: "grows a b \<Longrightarrow> grows a (csp_missing b)"
  unfolding csp_missing_def by (intro grows_issue grows_deduct) simp_all

lemma grows_sec_csp [grows_steps]: "grows a b \<Longrightarrow> grows a (sec_csp x1 b)"
  unfolding sec_csp_def Let_def
  by (auto intro!: grows_issue grows_deduct grows_detail grows_steps split: option.splits)

lemma grows_sec_xfo [grows_steps]: "grows a b \<Longrightarrow> grows a (sec_xfo x1 x2 b)"
  unfolding sec_xfo_def Let_def
  by (auto intro!: grows_issue grows_deduct grows_detail grows_steps split: option.splits)

lemma grows_sec_xcto [grows_steps]: "grows a b \<Longrightarrow> grows a (sec_xcto x1 b)"
  unfolding sec_xcto_def Let_def
  by (auto intro!: grows_issue grows_deduct grows_detail grows_steps split: option.splits)

lemma grows_sec_referrer [grows_steps]: "grows a b \<Longrightarrow> grows a (sec_referrer x1 b)"
  unfolding sec_referrer_def Let_def
  by (auto intro!: grows_issue grows_deduct grows_detail grows_steps split: option.splits)

lemma grows_sec_permissions [grows_steps]: "grows a b \<Longrightarrow> grows a (sec_permissions x1 x2 b)"
  unfolding sec_permissions_def Let_def
  by (auto intro!: grows_issue grows_deduct grows_detail grows_steps split: option.splits)

lemma grows_sec_xss [grows_steps]: "grows a b \<Longrightarrow> grows a (sec_xss x1 b)"
  unfolding sec_xss_def Let_def
  by (auto intro!: grows_issue grows_deduct grows_detail grows_steps split: option.splits)

lemma grows_sec_mixed_content [grows_steps]: "grows a b \<Longrightarrow> grows a (sec_mixed_content x1 x2 b)"
  unfolding sec_mixed_content_def Let_def
  by (auto intro!: grows_issue grows_deduct grows_detail grows_steps split: option.splits)

lemma grows_sec_email [grows_steps]: "grows a b \<Longrightarrow> grows a (sec_email x1 b)"
  unfolding sec_email_def Let_def
  by (auto intro!: grows_issue grows_deduct grows_detail grows_steps split: option.splits)

lemma grows_sec_forms [grows_steps]: "grows a b \<Longrightarrow> grows a (sec_forms x1 b)"
  unfolding sec_forms_def Let_def
  by (auto intro!: grows_issue grows_deduct grows_detail grows_steps split: option.splits)

lemma grows_sec_password [grows_steps]: "grows a b \<Longrightarrow> grows a (sec_password x1 b)"
  unfolding sec_password_def Let_def
  by (auto intro!: grows_issue grows_deduct grows_detail grows_steps split: option.splits)

lemma grows_sec_server [grows_steps]: "grows a b \<Longrightarrow> grows a (sec_server x1 b)"
  unfolding sec_server_def Let_def
  by (auto intro!: grows_issue grows_deduct grows_detail grows_steps split: option.splits)

lemma grows_sec_powered_by [grows_steps]: "grows a b \<Longrightarrow> grows a (sec_powered_by x1 b)"
  unfolding sec_powered_by_def Let_def
  by (auto intro!: grows_issue grows_deduct grows_detail grows_steps split: option.splits)

lemma grows_mob_viewport [grows_steps]: "grows a b \<Longrightarrow> grows a (mob_viewport x1 b)"
  unfolding mob_viewport_def Let_def
  by (auto intro!: grows_issue grows_deduct grows_detail grows_steps split: option.splits)

lemma grows_mob_small_fonts [grows_steps]: "grows a b \<Longrightarrow> grows a (mob_small_fonts x1 b)"
  unfolding mob_small_fonts_def Let_def
  by (auto intro!: grows_issue grows_deduct grows_detail grows_steps split: option.splits)

lemma grows_mob_tap_targets [grows_steps]: "grows a b \<Longrightarrow> grows a (mob_tap_targets x1 b)"
  unfolding mob_tap_targets_def Let_def
  by (auto intro!: grows_issue grows_deduct grows_detail grows_steps split: option.splits)

lemma grows_mob_responsive_images [grows_steps]: "grows a b \<Longrightarrow> grows a (mob_responsive_images x1 x2 x3 b)"
  unfolding mob_responsive_images_def Let_def
  by (auto intro!: grows_issue grows_deduct grows_detail grows_steps split: option.splits)

lemma grows_mob_media_queries [grows_steps]: "grows a b \<Longrightarrow> grows a (mob_media_queries x1 b)"
  unfolding mob_media_queries_def Let_def
  by (auto intro!: grows_issue grows_deduct grows_detail grows_steps split: option.splits)

lemma grows_mob_fixed_widths [grows_steps]: "grows a b \<Longrightarrow> grows a (mob_fixed_widths x1 b)"
  unfolding mob_fixed_widths_def Let_def
  by (auto intro!: grows_issue grows_deduct grows_detail grows_steps split: option.splits)

lemma grows_mob_touch_icon [grows_steps]: "grows a b \<Longrightarrow> grows a (mob_touch_icon x1 b)"
  unfolding mob_touch_icon_def Let_def
  by (auto intro!: grows_issue grows_deduct grows_detail grows_steps split: option.splits)

lemma grows_mob_favicon [grows_steps]: "grows a b \<Longrightarrow> grows a (mob_favicon x1 b)"
  unfolding mob_favicon_def Let_def
  by (auto intro!: grows_issue grows_deduct grows_detail grows_steps split: option.splits)

lemma grows_mob_manifest [grows_steps]: "grows a b \<Longrightarrow> grows a (mob_manifest x1 b)"
  unfolding mob_manifest_def Let_def
  by (auto intro!: grows_issue grows_deduct grows_detail grows_steps split: option.splits)

lemma grows_mob_theme_color [grows_steps]: "grows a b \<Longrightarrow> grows a (mob_theme_color x1 b)"
  unfolding mob_theme_color_def Let_def
  by (auto intro!: grows_issue grows_deduct grows_detail grows_steps split: option.splits)

lemma grows_a11y_lang [grows_steps]: "grows a b \<Longrightarrow> grows a (a11y_lang x1 b)"
  unfolding a11y_lang_def Let_def
  by (auto intro!: grows_issue grows_deduct grows_detail grows_steps split: option.splits)

lemma grows_a11y_image_alt [grows_steps]: "grows a b \<Longrightarrow> grows a (a11y_image_alt x1 x2 b)"
  unfolding a11y_image_alt_def Let_def
  by (auto intro!: grows_issue grows_deduct grows_detail grows_steps split: option.splits)

lemma grows_a11y_form_labels [grows_steps]: "grows a b \<Longrightarrow> grows a (a11y_form_labels x1 x2 b)"
  unfolding a11y_form_labels_def Let_def
  by (auto intro!: grows_issue grows_deduct grows_detail grows_steps split: option.splits)

lemma grows_a11y_h1 [grows_steps]: "grows a b \<Longrightarrow> grows a (a11y_h1 x1 b)"
  unfolding a11y_h1_def Let_def
  by (auto intro!: grows_issue grows_deduct grows_detail grows_steps split: option.splits)

lemma grows_a11y_landmark_count [grows_steps]: "grows a b \<Longrightarrow> grows a (a11y_landmark_count x1 b)"
  unfolding a11y_landmark_count_def Let_def
  by (auto intro!: grows_issue grows_deduct grows_detail grows_steps split: option.splits)

lemma grows_a11y_skip_link [grows_steps]: "grows a b \<Longrightarrow> grows a (a11y_skip_link x1 x2 b)"
  unfolding a11y_skip_link_def Let_def
  by (auto intro!: grows_issue grows_deduct grows_detail grows_steps split: option.splits)

lemma grows_a11y_link_text [grows_steps]: "grows a b \<Longrightarrow> grows a (a11y_link_text x1 b)"
  unfolding a11y_link_text_def Let_def
  by (auto intro!: grows_issue grows_deduct grows_detail grows_steps split: option.splits)

lemma grows_a11y_focus [grows_steps]: "grows a b \<Longrightarrow> grows a (a11y_focus x1 x2 b)"
  unfolding a11y_focus_def Let_def
  by (auto intro!: grows_issue grows_deduct grows_detail grows_steps split: option.splits)

lemma grows_a11y_contrast [grows_steps]: "grows a b \<Longrightarrow> grows a (a11y_contrast x1 b)"
  unfolding a11y_contrast_def Let_def
  by (auto intro!: grows_issue grows_deduct grows_detail grows_steps split: option.splits)

lemma grows_a11y_tables [grows_steps]: "grows a b \<Longrightarrow> grows a (a11y_tables x1 x2 b)"
  unfolding a11y_tables_def Let_def
  by (auto intro!: grows_issue grows_deduct grows_detail grows_steps split: option.splits)

lemma grows_a11y_clickable [grows_steps]: "grows a b \<Longrightarrow> grows a (a11y_clickable x1 x2 b)"
  unfolding a11y_clickable_def Let_def
  by (auto intro!: grows_issue grows_deduct grows_detail grows_steps split: option.splits)

lemma grows_a11y_tabindex [grows_steps]: "grows a b \<Longrightarrow> grows a (a11y_tabindex x1 b)"
  unfolding a11y_tabindex_def Let_def
  by (auto intro!: grows_issue grows_deduct grows_detail grows_steps split: option.splits)

lemma grows_a11y_skipped_level [grows_steps]:
  "grows a b \<Longrightarrow> grows a (a11y_skipped_level lastLevel hs b)"
  by (induction lastLevel hs b rule: a11y_skipped_level.induct)
     (auto intro!: grows_issue grows_deduct)

section \<open>What every analyzer run produces\<close>

lemma finish_score: "0 \<le> score (finish st m) \<and> score (finish st m) \<le> 100"
  by (simp add: finish_def)

lemma producedI: "grows a st \<Longrightarrow> produced a (finish st m)"
  unfolding produced_def by blast

lemma produced_score: "produced a r \<Longrightarrow> 0 \<le> score r \<and> score r \<le> 100"
  unfolding produced_def by (auto simp: finish_def)

lemma produced_score_le: "produced a r \<Longrightarrow> acc_score a \<le> bound \<Longrightarrow> 0 \<le> bound \<Longrightarrow> score r \<le> bound"
  unfolding produced_def by (auto simp: finish_def grows_def)

lemma analyzeSEO_produced: "produced start (analyzeSEO html u)"
  unfolding analyzeSEO_body Let_def
  by (intro producedI grows_steps grows_refl)

lemma analyzeSecurity_produced: "produced (sec_https u start) (analyzeSecurity u hs html)"
  unfolding analyzeSecurity_body Let_def
  by (intro producedI grows_steps grows_refl)

lemma analyzePerformance_produced:
  assumes "analyzePerformance new_URL rt html res = Inr r"
  shows "produced start r"
  using assms unfolding analyzePerformance_body Let_def
  by (clarsimp split: sum.splits) (intro producedI grows_steps grows_refl)

lemma analyzeMobile_produced:
  assumes "analyzeMobile html = Inr r"
  shows "produced start r"
  using assms unfolding analyzeMobile_body Let_def
  by (clarsimp split: sum.splits) (intro producedI grows_steps grows_refl)

lemma Inr_producedI: "Inr (finish st m) = Inr r \<Longrightarrow> grows a st \<Longrightarrow> produced a r"
  unfolding produced_def by blast

lemma analyzeAccessibility_produced:
  assumes "analyzeAccessibility regexp html = Inr r"
  shows "produced start r"
proof (cases "filter_e (without_label regexp html) (textInputs html)")
  case (Inl e)
  with assms show ?thesis
    unfolding analyzeAccessibility_body Let_def by simp
next
  case (Inr xs)
  from assms show ?thesis
    unfolding analyzeAccessibility_body Let_def Inr sum.case
    by (rule Inr_producedI) (intro grows_steps grows_refl)
qed

section \<open>The matching engine\<close>

lemma lit_length: "lit p s \<Longrightarrow> length p \<le> length s"
  by (induction p s rule: lit.induct) auto


lemma run_le_length: "run P s \<le> length s"
  by (induction s) auto

lemma run_pos: "0 < run P s \<Longrightarrow> \<exists>d s'. s = d # s' \<and> P d"
  by (cases s) (auto split: if_splits)

lemma drop_run_Nil: "drop (run P s) s = [] \<Longrightarrow> list_all P s"
  by (induction s) (auto split: if_splits)

lemma drop_run_Cons: "drop (run P s) s = y # ys \<Longrightarrow> \<not> P y"
  by (induction s) (auto split: if_splits)

lemma run_drop_run: "run P (drop (run P s) s) = 0"
  by (induction s) auto

lemma ms_Lit_elem:
  "(t, c') \<in> set (ms (Lit p) (s, c)) \<Longrightarrow> lit p s \<and> t = drop (length p) s \<and> c' = c"
  by (auto split: if_splits)

lemma ms_Cls_elem:
  "(t, c') \<in> set (ms (Cls P) (s, c)) \<Longrightarrow> \<exists>x. s = x # t \<and> P x \<and> c' = c"
  by (auto split: list.splits if_splits)

lemma ms_Many_elem:
  "(t, c') \<in> set (ms (Many n P) (s, c)) \<Longrightarrow> \<exists>k. n \<le> k \<and> k \<le> run P s \<and> t = drop k s \<and> c' = c"
  by auto

lemma ms_Few_elem:
  "(t, c') \<in> set (ms (Few P) (s, c)) \<Longrightarrow> \<exists>k. k \<le> run P s \<and> t = drop k s \<and> c' = c"
proof -
  assume "(t, c') \<in> set (ms (Few P) (s, c))"
  then obtain k where "k < Suc (run P s)" "t = drop k s" "c' = c"
    by (auto simp del: upt_Suc)
  then show ?thesis by (intro exI [of _ k]) simp
qed

lemma ms_Seq_elem:
  "(t, c') \<in> set (ms (Seq a b) sc) \<longleftrightarrow> (\<exists>mid \<in> set (ms a sc). (t, c') \<in> set (ms b mid))"
  by auto

lemma ms_Cap_elem:
  "(t, c') \<in> set (ms (Cap a) (s, c)) \<Longrightarrow> \<exists>c''. (t, c'') \<in> set (ms a (s, c))"
  by auto

lemma ms_suffix: "(t, c') \<in> set (ms r (s, c)) \<Longrightarrow> suffix t s"
proof (induction r arbitrary: s c t c')
  case (Lit p)
  then show ?case by (auto split: if_splits simp: suffix_drop)
next
  case (Cls P)
  then show ?case by (auto split: list.splits if_splits simp: suffix_Cons)
next
  case (Seq a b)
  from Seq.prems obtain m cm where "(m, cm) \<in> set (ms a (s, c))" "(t, c') \<in> set (ms b (m, cm))"
    by auto
  with Seq.IH show ?case by (blast intro: suffix_order.trans)
next
  case (Alt a b)
  then show ?case by auto
next
  case (Many n P)
  then show ?case by (auto simp: suffix_drop)
next
  case (Few P)
  then show ?case by (auto simp: suffix_drop)
next
  case (Opt a)
  then show ?case by auto
next
  case (Cap a)
  then show ?case by auto
next
  case (NLook a)
  then show ?case by (auto split: if_splits)
qed

lemma match_at_elem:
  "match_at r s = Some (n, c) \<Longrightarrow> \<exists>t. (t, c) \<in> set (ms r (s, None)) \<and> n = length s - length t"
  unfolding match_at_def by (auto split: list.splits)

lemma match_at_None_iff: "match_at r s = None \<longleftrightarrow> ms r (s, None) = []"
  unfolding match_at_def by (auto split: list.splits)

lemma matchAll_elem:
  "(m, c) \<in> set (matchAll r s) \<Longrightarrow>
     \<exists>t n. suffix t s \<and> match_at r t = Some (n, c) \<and> m = take n t"
proof (induction r s rule: matchAll.induct)
  case (1 r)
  then obtain n where "match_at r [] = Some (n, c)" "m = []"
    by (cases "match_at r []") auto
  then show ?case by (intro exI [of _ "[]"] exI [of _ n]) simp
next
  case (2 r x xs)
  show ?case
  proof (cases "match_at r (x # xs)")
    case None
    with 2 obtain t n where "suffix t xs" "match_at r t = Some (n, c)" "m = take n t"
      by auto
    then show ?thesis by (blast intro: suffix_ConsI)
  next
    case (Some a)
    obtain k c0 where a: "a = (k, c0)" by (cases a)
    from "2.prems" Some a
    consider "m = take k (x # xs)" "c = c0"
      | "(m, c) \<in> set (matchAll r (drop (max 1 k) (x # xs)))"
      by auto
    then show ?thesis
    proof cases
      case 1
      with Some a show ?thesis by (intro exI [of _ "x # xs"]) auto
    next
      case 2
      with "2.IH"(2) [OF Some a [symmetric]] obtain t n where
        "suffix t (drop (max 1 k) (x # xs))" "match_at r t = Some (n, c)" "m = take n t"
        by blast
      moreover have "suffix (drop (max 1 k) (x # xs)) (x # xs)"
        by (rule suffix_drop)
      ultimately show ?thesis by (blast intro: suffix_order.trans)
    qed
  qed
qed



section \<open>Scripts never get a source\<close>

lemma canon_62: "canon 62 = canon x \<longleftrightarrow> x = 62"
  by (auto simp: canon_def)

lemma lit_gt: "lit [62] s \<longleftrightarrow> (\<exists>ys. s = 62 # ys)"
  by (cases s) (auto simp: canon_62)

lemma list_all_not_gt: "list_all not_gt s \<longleftrightarrow> 62 \<notin> set s"
  by (induction s) (auto simp: not_gt_def)

text \<open>A pattern that ends in \<open>>\<close> matches nothing in a text without \<open>>\<close>.\<close>

lemma ms_gt_Nil: "62 \<notin> set s \<Longrightarrow> ms (Lit [62]) (s, c) = []"
  by (auto simp: lit_gt)

lemma ms_Seq_no_gt:
  assumes "62 \<notin> set s" and "\<And>t c'. 62 \<notin> set t \<Longrightarrow> ms b (t, c') = []"
  shows "ms (Seq a b) (s, c) = []"
proof -
  have "ms b mid = []" if "mid \<in> set (ms a (s, c))" for mid
  proof -
    obtain t c' where mid: "mid = (t, c')" by (cases mid)
    with that have "suffix t s" by (auto dest: ms_suffix)
    with assms(1) have "62 \<notin> set t" by (auto dest: set_mono_suffix)
    with assms(2) mid show ?thesis by simp
  qed
  then show ?thesis by simp
qed

lemma script_tail_no_gt: "62 \<notin> set s \<Longrightarrow> ms script_tail (s, c) = []"
  unfolding script_tail_def seqs.simps
  by (intro ms_Seq_no_gt ms_gt_Nil)

lemma script_tail_at_gt: "ms script_tail (62 # ys, c) = [(ys, c)]"
  unfolding script_tail_def
  by (simp add: u16_def canon_def not_gt_def)

lemma script_re_unfold: "script_re = Seq (Lit (u16 ''<script'')) (Seq (Many 0 not_gt) script_tail)"
  by (simp add: script_re_def script_tail_def)

lemma greedy_then:
  "ms (Seq (Many 0 P) b) (s, c) =
     ms b (drop (run P s) s, c) @ concat (map (\<lambda>k. ms b (drop k s, c)) (rev [0 ..< run P s]))"
  by (simp add: comp_def)

lemma script_capture_None:
  assumes "match_at script_re s = Some (n, c)"
  shows "c = None"
proof -
  define s1 where "s1 = drop (length (u16 ''<script'')) s"
  from assms have l: "lit (u16 ''<script'') s"
    unfolding match_at_def script_re_unfold by (auto split: if_splits list.splits)
  then have ms: "ms script_re (s, None) = ms (Seq (Many 0 not_gt) script_tail) (s1, None)"
    unfolding script_re_unfold s1_def by simp
  show ?thesis
  proof (cases "drop (run not_gt s1) s1")
    case Nil
    then have "62 \<notin> set s1"
      using drop_run_Nil [of not_gt s1] by (simp add: list_all_not_gt)
    then have "ms (Seq (Many 0 not_gt) script_tail) (s1, None) = []"
      by (intro ms_Seq_no_gt script_tail_no_gt)
    with ms have "ms script_re (s, None) = []" by (simp only:)
    with assms show ?thesis by (simp add: match_at_def)
  next
    case (Cons y ys)
    then have "y = 62"
      using drop_run_Cons [of not_gt s1 y ys] by (simp add: not_gt_def)
    with Cons have "ms (Seq (Many 0 not_gt) script_tail) (s1, None) =
        (ys, None) # concat (map (\<lambda>k. ms script_tail (drop k s1, None)) (rev [0 ..< run not_gt s1]))"
      by (simp only: greedy_then script_tail_at_gt append_Cons append_Nil)
    with ms have "\<exists>rest. ms script_re (s, None) = (ys, None) # rest" by (simp only:) blast
    with assms show ?thesis by (auto simp: match_at_def)
  qed
qed

lemma scripts_src_None:
  assumes "x \<in> set (scripts (extractResources html))"
  shows "src x = None \<and> isInline x"
proof -
  from assms obtain m c where mc: "(m, c) \<in> set (matchAll script_re html)" and x: "x = extract_script (m, c)"
    by (auto simp: extractResources_def)
  from matchAll_elem [OF mc] script_capture_None have "c = None" by blast
  with x show ?thesis by (simp add: extract_script_def truthy_def)
qed

lemma filter_e_False: "(\<And>x. x \<in> set xs \<Longrightarrow> p x = Inr False) \<Longrightarrow> filter_e p xs = Inr []"
  by (induction xs) auto

lemma third_party_never_throws:
  "filter_e (is_third_party new_URL html) (scripts (extractResources html)) = Inr []"
  by (rule filter_e_False) (simp add: is_third_party_def scripts_src_None)

lemma blocking_scripts_0:
  "filter (\<lambda>s. \<not> isInline s \<and> \<not> isAsync s \<and> \<not> isDefer s) (scripts (extractResources html)) = []"
  by (auto simp: filter_empty_conv scripts_src_None)

lemma analyzePerformance_total:
  "\<exists>r. analyzePerformance new_URL responseTime html (extractResources html) = Inr r"
  unfolding analyzePerformance_body Let_def third_party_never_throws by simp

section \<open>Tags, header text and numbers\<close>

lemma length_u16 [simp]: "length (u16 s) = length s"
  by (simp add: u16_def)





text \<open>Numbers in the matches of the font-size and width patterns.\<close>

lemma first_number_digit:
  assumes "x \<in> set f" and "digit x"
  shows "\<exists>n. first_number f = Inr n"
proof -
  have "match (Many 1 digit) f \<noteq> None"
    using assms
  proof (induction f)
    case Nil
    then show ?case by simp
  next
    case (Cons y ys)
    show ?case
    proof (cases "digit y")
      case True
      then have "match_at (Many 1 digit) (y # ys) \<noteq> None"
        by (simp add: match_at_def split: list.splits)
      then show ?thesis by (auto split: option.splits)
    next
      case False
      with Cons have "match (Many 1 digit) ys \<noteq> None" by auto
      then show ?thesis by (auto split: option.splits)
    qed
  qed
  then show ?thesis by (auto simp: first_number_def split: option.splits)
qed

lemma between_suffixes:
  assumes "suffix (d # u) t" and "suffix t' u"
  shows "d \<in> set (take (length t - length t') t)"
proof -
  from assms obtain a b where "t = a @ d # u" "u = b @ t'"
    by (auto simp: suffix_def)
  then show ?thesis by simp
qed

lemma drop_pos_suffix: "0 < k \<Longrightarrow> suffix (drop k (d # u)) u"
  by (cases k) (auto simp: suffix_drop)

lemma number_pattern_digit:
  assumes "match_at (seqs [Lit p, Many 0 is_space, r, Lit q]) t = Some (n, c)"
    and r: "r = Cap (Many 1 digit) \<or> r = Many 4 digit"
  shows "\<exists>x \<in> set (take n t). digit x"
proof -
  from match_at_elem [OF assms(1)] obtain t' where
    t': "(t', c) \<in> set (ms (Seq (Lit p) (Seq (Many 0 is_space) (Seq r (Lit q)))) (t, None))"
    and n: "n = length t - length t'"
    by auto
  from t' obtain k s3 c3 where
    s3: "(s3, c3) \<in> set (ms r (drop k (drop (length p) t), None))" and "t' = drop (length q) s3"
    by (auto split: if_splits)
  define s2 where "s2 = drop k (drop (length p) t)"
  from s3 have s3': "(s3, c3) \<in> set (ms r (s2, None))"
    unfolding s2_def .
  from r obtain j where j: "1 \<le> j" "j \<le> run digit s2" "s3 = drop j s2"
  proof (elim disjE)
    assume "r = Cap (Many 1 digit)"
    with s3' obtain c'' where "(s3, c'') \<in> set (ms (Many 1 digit) (s2, None))"
      using ms_Cap_elem by blast
    from ms_Many_elem [OF this] that show thesis by blast
  next
    assume "r = Many 4 digit"
    with s3' have "(s3, c3) \<in> set (ms (Many 4 digit) (s2, None))" by simp
    from ms_Many_elem [OF this] obtain j where "4 \<le> j" "j \<le> run digit s2" "s3 = drop j s2"
      by blast
    with that show thesis by (intro that [of j]) simp_all
  qed
  then obtain d u where s2: "s2 = d # u" "digit d"
    using run_pos [of digit s2] by auto
  have "suffix s2 t"
    unfolding s2_def by (metis suffix_drop suffix_order.trans)
  moreover have "suffix t' u"
    using j s2 \<open>t' = drop (length q) s3\<close> drop_pos_suffix [of j d u]
    by (metis less_eq_Suc_le One_nat_def suffix_drop suffix_order.trans)
  ultimately have "d \<in> set (take (length t - length t') t)"
    using s2 by (intro between_suffixes [of d u t t']) simp_all
  with n s2 show ?thesis by auto
qed

lemma number_test_total:
  assumes "\<And>t n c. match_at r t = Some (n, c) \<Longrightarrow> \<exists>x \<in> set (take n t). digit x"
  shows "\<exists>ys. filter_e (number_test p) (match_g r html) = Inr ys"
proof -
  have "\<exists>ys. filter_e (number_test p) fs = Inr ys"
    if "\<And>f. f \<in> set fs \<Longrightarrow> \<exists>x \<in> set f. digit x" for fs
    using that
  proof (induction fs)
    case Nil
    then show ?case by simp
  next
    case (Cons f fs)
    then obtain x where "x \<in> set f" "digit x" by auto
    from first_number_digit [OF this] obtain n where "first_number f = Inr n" ..
    then have "number_test p f = Inr (p n)" by (simp add: number_test_def)
    moreover from Cons obtain ys where "filter_e (number_test p) fs = Inr ys" by auto
    ultimately show ?case by simp
  qed
  moreover have "\<exists>x \<in> set f. digit x" if "f \<in> set (match_g r html)" for f
  proof -
    from that obtain c where "(f, c) \<in> set (matchAll r html)"
      by (auto simp: match_g_def)
    from matchAll_elem [OF this] assms show ?thesis by blast
  qed
  ultimately show ?thesis by blast
qed

lemma analyzeMobile_total: "\<exists>r. analyzeMobile html = Inr r"
proof -
  obtain small where small:
    "filter_e (number_test (\<lambda>size. size < 12)) (match_g font_size_re html) = Inr small"
    using number_test_total [of font_size_re "\<lambda>size. size < 12" html]
      number_pattern_digit [of "u16 ''font-size:''" "Cap (Many 1 digit)" "u16 ''px''"]
    by (auto simp: font_size_re_def)
  obtain large where large:
    "filter_e (number_test (\<lambda>w. w > 500)) (match_g fixed_width_re html) = Inr large"
    using number_test_total [of fixed_width_re "\<lambda>w. w > 500" html]
      number_pattern_digit [of "u16 ''width:''" "Many 4 digit" "u16 ''px''"]
    by (auto simp: fixed_width_re_def)
  show ?thesis
    unfolding analyzeMobile_body Let_def small large by simp
qed

section \<open>Auxiliary facts for the properties\<close>

text \<open>The definitions that a concrete input is evaluated with.\<close>

lemmas eval_defs =
  u16_def startsWith_def is_space_def trim_def lower_cu_def toLowerCase_def show_nat_def
  show_int_def parseInt_def canon_def match_at_def test_def match_g_def quote_def
  not_quote_def not_gt_def digit_def any_cu_def dot_def attr_def truthy_def truthy_b_def
  group1_def script_re_def stylesheet_re_def tag_re_def attr_value_re_def
  number_attr_re_def modern_format_re_def extract_script_def extract_stylesheet_def
  extract_image_def extract_iframe_def extractResources_def start_def deduct_def issue_def
  detail_def finish_def round_kb_def perf_response_time_def perf_html_size_def
  perf_blocking_def perf_total_scripts_def perf_stylesheets_def perf_inline_css_def
  style_block_re_def estimateInlineCSS_def perf_images_def critical_css_re_def
  link_rel_re_def perf_critical_css_def perf_preconnect_def is_third_party_def
  perf_third_party_def perf_iframes_def title_re_def seo_title_def description_re_def
  description_re2_def seo_description_def h1_block_re_def seo_h1_def seo_h2_def
  canonical_re_def seo_canonical_def meta_re_def seo_open_graph_def seo_twitter_def
  seo_image_alt_def json_ld_re_def microdata_re_def seo_structured_data_def
  html_lang_re_def seo_lang_def robots_re_def seo_robots_def internal_link_re_def
  seo_internal_links_def headerObj_def sec_https_def max_age_re_def hsts_missing_def
  sec_hsts_def csp_missing_def sec_csp_def sec_xfo_def sec_xcto_def sec_referrer_def
  sec_permissions_def sec_xss_def http_resource_re_def sec_mixed_content_def alnum_def
  alpha_def email_re_def sec_email_def http_action_re_def sec_forms_def
  password_field_re_def sec_password_def server_name_re_def version_re_def sec_server_def
  sec_powered_by_def viewport_re_def mob_viewport_def font_size_re_def first_number_def
  number_test_def mob_small_fonts_def padding_re_def mob_tap_targets_def
  mob_responsive_images_def media_query_re_def mobile_query_re_def mob_media_queries_def
  fixed_width_re_def mob_fixed_widths_def mob_touch_icon_def mob_favicon_def
  mob_manifest_def mob_theme_color_def a11y_lang_def a11y_image_alt_def input_type_re_def
  syntax_character_def plain_def label_source_def label_for_re_def new_label_RegExp_def
  without_label_def a11y_form_labels_def heading_re_def a11y_h1_def landmark_re_def
  a11y_landmark_count_def skip_href_re_def skip_text_re_def a11y_skip_link_def
  anchor_re_def any_tag_re_def bad_link_text_def a11y_link_text_def outline_none_re_def
  a11y_focus_def light_color_re_def a11y_contrast_def a11y_tables_def onclick_re_def
  a11y_clickable_def tabindex_re_def a11y_tabindex_def textInputs_def
  inputsWithAriaLabel_def getStatus_def categoryOf_def contains_ci_def contains_tag_def
  security_header_names_def no_security_headers_def content_deductions_def
  unlabeled_inputs_def missing_header_score_def

lemma metrics_finish: "metrics (finish st m) = m"
  by (simp add: finish_def)


lemma mobile_filters_total:
  "\<exists>small large.
     filter_e (number_test (\<lambda>size. size < 12)) (match_g font_size_re html) = Inr small \<and>
     filter_e (number_test (\<lambda>w. w > 500)) (match_g fixed_width_re html) = Inr large"
  using number_test_total [of font_size_re "\<lambda>size. size < 12" html]
    number_pattern_digit [of "u16 ''font-size:''" "Cap (Many 1 digit)" "u16 ''px''"]
    number_test_total [of fixed_width_re "\<lambda>w. w > 500" html]
    number_pattern_digit [of "u16 ''width:''" "Many 4 digit" "u16 ''px''"]
  unfolding font_size_re_def fixed_width_re_def by blast

text \<open>
  Wherever an analyzer returns, its score is between 0 and 100. The performance, SEO,
  security and mobile analyzers return on every input.
\<close>

lemma scores_in_range:
  "(\<exists>r. analyzePerformance new_URL responseTime html (extractResources html) = Inr r \<and>
        0 \<le> score r \<and> score r \<le> 100) \<and>
   0 \<le> score (analyzeSEO html parsedUrl) \<and> score (analyzeSEO html parsedUrl) \<le> 100 \<and>
   0 \<le> score (analyzeSecurity parsedUrl hs html) \<and>
   score (analyzeSecurity parsedUrl hs html) \<le> 100 \<and>
   (\<exists>r. analyzeMobile html = Inr r \<and> 0 \<le> score r \<and> score r \<le> 100) \<and>
   (case analyzeAccessibility regexp html of
      Inl e \<Rightarrow> True
    | Inr r \<Rightarrow> 0 \<le> score r \<and> score r \<le> 100)"
proof -
  obtain rp where rp: "analyzePerformance new_URL responseTime html (extractResources html) = Inr rp"
    using analyzePerformance_total by blast
  obtain rm where rm: "analyzeMobile html = Inr rm"
    using analyzeMobile_total by blast
  have a: "case analyzeAccessibility regexp html of
      Inl e \<Rightarrow> True
    | Inr r \<Rightarrow> 0 \<le> score r \<and> score r \<le> 100"
    by (cases "analyzeAccessibility regexp html")
       (simp_all add: produced_score [OF analyzeAccessibility_produced])
  from rp rm a show ?thesis
    using produced_score [OF analyzePerformance_produced [OF rp]]
      produced_score [OF analyzeMobile_produced [OF rm]]
      produced_score [OF analyzeSEO_produced [of html parsedUrl]]
      produced_score [OF analyzeSecurity_produced [of parsedUrl hs html]]
    by simp
qed

lemma headerObj_fold_None:
  "foldl (\<lambda>obj (key, v). obj(toLowerCase key \<mapsto> v)) m hs k = None \<longleftrightarrow>
     m k = None \<and> k \<notin> (\<lambda>(key, v). toLowerCase key) ` set hs"
  by (induction hs arbitrary: m) (auto split: if_splits)

lemma no_security_headers_None:
  assumes "no_security_headers hs" and "k \<in> set security_header_names"
  shows "headerObj hs k = None"
  using assms unfolding headerObj_def headerObj_fold_None no_security_headers_def
  by (auto simp: list_all_iff)

lemma no_security_headers_lookups:
  assumes "no_security_headers hs"
  shows "headerObj hs (u16 ''strict-transport-security'') = None"
    "headerObj hs (u16 ''content-security-policy'') = None"
    "headerObj hs (u16 ''x-frame-options'') = None"
    "headerObj hs (u16 ''x-content-type-options'') = None"
    "headerObj hs (u16 ''referrer-policy'') = None"
    "headerObj hs (u16 ''permissions-policy'') = None"
    "headerObj hs (u16 ''feature-policy'') = None"
    "headerObj hs (u16 ''x-xss-protection'') = None"
  by (rule no_security_headers_None [OF assms], simp add: security_header_names_def)+

lemma score_simps:
  "acc_score (deduct n st) = acc_score st - n"
  "acc_score (issue l m st) = acc_score st"
  "acc_score (detail m st) = acc_score st"
  "acc_score start = 100"
  by (simp_all add: deduct_def issue_def detail_def start_def)

lemma sec_step_scores:
  "acc_score (sec_mixed_content n u st) =
     acc_score st - (if n > 0 \<and> protocol u = u16 ''https:'' then 5 else 0)"
  "acc_score (sec_email n st) = acc_score st - (if n > 3 then 2 else 0)"
  "acc_score (sec_forms n st) = acc_score st - (if n > 0 then 8 else 0)"
  "acc_score (sec_password n st) = acc_score st"
  "acc_score (sec_server srv st) = acc_score st -
     (case srv of None \<Rightarrow> 0
      | Some v \<Rightarrow> if v \<noteq> [] \<and> test server_name_re v \<and> test version_re v then 2 else 0)"
  "acc_score (sec_powered_by p st) = acc_score st - (if truthy p then 2 else 0)"
  "acc_score (sec_https u st) = acc_score st - (if protocol u = u16 ''https:'' then 0 else 30)"
  "acc_score (sec_hsts None st) = acc_score st - 12"
  "acc_score (sec_csp None st) = acc_score st - 10"
  "acc_score (sec_xfo None None st) = acc_score st - 8"
  "acc_score (sec_xcto None st) = acc_score st - 6"
  "acc_score (sec_referrer None st) = acc_score st - 4"
  "acc_score (sec_permissions None None st) = acc_score st - 4"
  "acc_score (sec_xss None st) = acc_score st - 2"
  by (simp_all add: sec_mixed_content_def sec_email_def sec_forms_def sec_password_def
      sec_server_def sec_powered_by_def sec_https_def sec_hsts_def hsts_missing_def
      sec_csp_def csp_missing_def sec_xfo_def sec_xcto_def sec_referrer_def
      sec_permissions_def sec_xss_def truthy_def score_simps split: option.splits)



section \<open>The locals of a run and the result made of them\<close>

text \<open>
  An analyzer that returns has made its result of the locals of its run; the score and
  the findings of a result do not depend on its metrics.
\<close>

lemma returned_locals:
  "(case x of Inl e \<Rightarrow> Inl e | Inr st \<Rightarrow> Inr (finish st m)) = Inr r \<Longrightarrow>
   \<exists>st. x = Inr st \<and> r = finish st m"
  by (cases x) auto



text \<open>
  The locals of every run have grown from the initial locals, so the result lists the
  inserted findings in two groups, each in the order of insertion.
\<close>

lemma grows_start_two_groups:
  "grows start st \<Longrightarrow> two_groups_in_order (acc_log st) (details (finish st m))"
  unfolding grows_def two_groups_in_order_def by (auto simp: start_def finish_def)

lemma Inr_growsI: "Inr x = Inr st \<Longrightarrow> grows a x \<Longrightarrow> grows a st"
  by simp

lemma seo_locals_grows: "grows start (seo_locals html)"
  unfolding seo_locals_def seo_run_def Let_def
  by (intro grows_steps grows_refl)

lemma sec_locals_grows: "grows start (sec_locals u hs html)"
  unfolding sec_locals_def Let_def
  by (intro grows_steps grows_refl)

lemma perf_locals_grows:
  assumes "perf_locals new_URL rt html res = Inr st"
  shows "grows start st"
proof (cases "filter_e (is_third_party new_URL html) (scripts res)")
  case (Inl e)
  with assms show ?thesis
    unfolding perf_locals_def perf_run_def Let_def by simp
next
  case (Inr xs)
  from assms show ?thesis
    unfolding perf_locals_def perf_run_def Let_def Inr sum.case
    by (rule Inr_growsI) (intro grows_steps grows_refl)
qed

lemma mob_locals_grows:
  assumes "mob_locals html = Inr st"
  shows "grows start st"
proof -
  obtain small large where sl:
    "filter_e (number_test (\<lambda>size. size < 12)) (match_g font_size_re html) = Inr small"
    "filter_e (number_test (\<lambda>w. w > 500)) (match_g fixed_width_re html) = Inr large"
    using mobile_filters_total by blast
  from assms show ?thesis
    unfolding mob_locals_def mob_run_def Let_def sl sum.case
    by (rule Inr_growsI) (intro grows_steps grows_refl)
qed

lemma a11y_locals_grows:
  assumes "a11y_locals regexp html = Inr st"
  shows "grows start st"
proof (cases "filter_e (without_label regexp html) (textInputs html)")
  case (Inl e)
  with assms show ?thesis
    unfolding a11y_locals_def a11y_run_def Let_def by simp
next
  case (Inr xs)
  from assms show ?thesis
    unfolding a11y_locals_def a11y_run_def Let_def Inr sum.case
    by (rule Inr_growsI) (intro grows_steps grows_refl)
qed







section \<open>Properties of the specification\<close>

text \<open>
  C1. The specification says that each of the five analyzers returns, on every input, a
  score that is an integer from 0 to 100. The clamp itself is never bypassed
  (\<open>scores_in_range\<close>), and four analyzers return on every input. The accessibility
  analyzer does not: it interpolates the \<open>id\<close> of an input element into a pattern
  without escaping it. On the page \<^verbatim>\<open><input id="(">\<close> the pattern has an open group,
  \<open>new RegExp\<close> throws, and the analyzer returns no score at all.
\<close>

theorem C1_accessibility_returns_no_score:
  "analyzeAccessibility regexp (u16 ''<input id='' @ [34] @ u16 ''('' @ [34] @ u16 ''>'') = Inl SyntaxError"
  unfolding analyzeAccessibility_body Let_def by (simp add: eval_defs Let_def)

text \<open>
  C2. The specification says that a script tag with a \<open>src\<close> attribute yields a record
  whose \<open>src\<close> is the value of the attribute and whose \<open>isInline\<close> is false, and that
  the performance analyzer counts the external scripts without \<open>async\<close> and \<open>defer\<close> as
  render-blocking. In the pattern of the extractor the greedy \<open>[^>]*\<close> in front of the
  optional group takes the whole tag, so the group never takes part: the record of
  \<^verbatim>\<open><script src="a.js"></script>\<close> has no \<open>src\<close> and is inline, and the number of
  render-blocking scripts is 0 on every page.
\<close>

theorem C2_script_src_is_dropped:
  "scripts (extractResources (u16 ''<script src='' @ [34] @ u16 ''a.js'' @ [34] @ u16 ''></script>'')) =
     [\<lparr> src = None, isInline = True, isAsync = False, isDefer = False, isModule = False \<rparr>] \<and>
   (\<exists>r. analyzePerformance new_URL responseTime html (extractResources html) = Inr r \<and>
        perf_blockingScripts (metrics r) = 0)"
proof -
  have "scripts (extractResources (u16 ''<script src='' @ [34] @ u16 ''a.js'' @ [34] @ u16 ''></script>'')) =
     [\<lparr> src = None, isInline = True, isAsync = False, isDefer = False, isModule = False \<rparr>]"
    by (simp add: eval_defs Let_def)
  moreover
  have "\<exists>r. analyzePerformance new_URL responseTime html (extractResources html) = Inr r \<and>
        perf_blockingScripts (metrics r) = 0"
    unfolding analyzePerformance_body Let_def third_party_never_throws sum.case blocking_scripts_0
    by (intro exI conjI, rule refl) (simp only: metrics_finish perf_metrics.simps list.size)
  ultimately show ?thesis ..
qed

text \<open>
  C3. The specification says that the total score is the weighted sum of the five
  category scores, rounded. The handler evaluates the sum in double-precision
  arithmetic, where \<open>0.20\<close> and \<open>0.15\<close> are not exact. For the address of an HTTPS page
  that answers after 3001 ms with an empty body and the single header
  \<open>X-Powered-By: PHP\<close>, the category scores are 73, 35, 52, 53 and 81. Their weighted
  sum is 57.5, which rounds to 58; the handler computes 57.49999999999999 and reports 57.
\<close>

theorem C3_total_is_not_the_rounded_sum:
  "case report new_URL regexp address
          \<lparr> protocol = u16 ''https:'', hostname = u16 ''example.com'' \<rparr>
          3001 [(u16 ''X-Powered-By'', u16 ''PHP'')] [] of
     Inl e \<Rightarrow> False
   | Inr r \<Rightarrow>
       map cat_score [performance r, seo r, security r, mobile r, accessibility r] =
         [73, 35, 52, 53, 81] \<and>
       report_totalScore r = 57 \<and>
       weighted_total 73 35 52 53 81 = 58"
proof -
  obtain rp where rp: "analyzePerformance new_URL 3001 [] (extractResources []) = Inr rp"
    and sp: "score rp = 73"
  proof -
    have "\<exists>r. analyzePerformance new_URL 3001 [] (extractResources []) = Inr r \<and> score r = 73"
      unfolding analyzePerformance_body Let_def by (simp add: eval_defs Let_def)
    with that show thesis by blast
  qed
  have ss: "score (analyzeSEO [] \<lparr> protocol = u16 ''https:'', hostname = u16 ''example.com'' \<rparr>) = 35"
    unfolding analyzeSEO_body Let_def by (simp add: eval_defs Let_def)
  have sc: "score (analyzeSecurity \<lparr> protocol = u16 ''https:'', hostname = u16 ''example.com'' \<rparr>
      [(u16 ''X-Powered-By'', u16 ''PHP'')] []) = 52"
    unfolding analyzeSecurity_body Let_def by (simp add: eval_defs Let_def)
  obtain rm where rm: "analyzeMobile [] = Inr rm" and sm: "score rm = 53"
  proof -
    have "\<exists>r. analyzeMobile [] = Inr r \<and> score r = 53"
      unfolding analyzeMobile_body Let_def by (simp add: eval_defs Let_def)
    with that show thesis by blast
  qed
  obtain ra where ra: "analyzeAccessibility regexp [] = Inr ra" and sa: "score ra = 81"
  proof -
    have "\<exists>r. analyzeAccessibility regexp [] = Inr r \<and> score r = 81"
      unfolding analyzeAccessibility_body Let_def by (simp add: eval_defs Let_def)
    with that show thesis by blast
  qed
  have t: "totalScore 73 35 52 53 81 = 57"
    by code_simp
  have w: "weighted_total 73 35 52 53 81 = 58"
    by (simp add: weighted_total_def)
  show ?thesis
    unfolding report_def Let_def rp rm ra sum.case
    by (simp add: categoryOf_def sp ss sc sm sa t w)
qed

text \<open>
  C4. The specification says that the extractor and the five analyzers never raise an
  error, whatever the markup. The extractor is a total function, and the third-party
  check of the performance analyzer never calls \<open>new URL\<close>, because no script record has
  a \<open>src\<close> (\<open>third_party_never_throws\<close>, \<open>analyzePerformance_total\<close>); the mobile
  analyzer returns as well (\<open>analyzeMobile_total\<close>). The accessibility analyzer raises
  \<open>SyntaxError\<close> on an \<open>id\<close> that is not a well-formed pattern: for the page
  \<^verbatim>\<open><input id=")">\<close> the handler produces no report, whatever the other inputs are.
\<close>

theorem C4_handler_fails_on_unbalanced_id:
  "report new_URL regexp address parsedUrl responseTime hs (u16 ''<input id='' @ [34] @ u16 '')'' @ [34] @ u16 ''>'') =
     Inl SyntaxError"
proof -
  obtain rp where rp:
    "analyzePerformance new_URL responseTime (u16 ''<input id='' @ [34] @ u16 '')'' @ [34] @ u16 ''>'')
       (extractResources (u16 ''<input id='' @ [34] @ u16 '')'' @ [34] @ u16 ''>'')) = Inr rp"
    using analyzePerformance_total by blast
  obtain rm where rm: "analyzeMobile (u16 ''<input id='' @ [34] @ u16 '')'' @ [34] @ u16 ''>'') = Inr rm"
    using analyzeMobile_total by blast
  have ra: "analyzeAccessibility regexp (u16 ''<input id='' @ [34] @ u16 '')'' @ [34] @ u16 ''>'') = Inl SyntaxError"
    unfolding analyzeAccessibility_body Let_def by (simp add: eval_defs Let_def)
  show ?thesis
    unfolding report_def Let_def rp rm ra sum.case ..
qed

text \<open>
  C5. When the protocol of the parsed URL is \<open>http:\<close>, the score of the security analyzer
  is at most 70, for every header collection and every HTML text: the HTTPS deduction of
  30 applies, and no later rule raises the score.
\<close>

theorem C5_http_score_at_most_70:
  assumes "protocol parsedUrl = u16 ''http:''"
  shows "score (analyzeSecurity parsedUrl hs html) \<le> 70"
proof -
  have "u16 ''http:'' \<noteq> u16 ''https:''"
    by (simp add: u16_def)
  with assms have "acc_score (sec_https parsedUrl start) = 70"
    by (simp add: sec_https_def start_def deduct_def issue_def)
  with analyzeSecurity_produced [of parsedUrl hs html] show ?thesis
    by (intro produced_score_le [where a = "sec_https parsedUrl start"]) simp_all
qed

theorem C5_witness:
  "protocol \<lparr> protocol = u16 ''http:'', hostname = u16 ''example.com'' \<rparr> = u16 ''http:'' \<and>
   score (analyzeSecurity \<lparr> protocol = u16 ''http:'', hostname = u16 ''example.com'' \<rparr>
            [(u16 ''Server'', u16 ''nginx/1.2'')] (u16 ''<form>'')) \<le> 70"
  using C5_http_score_at_most_70
    [of "\<lparr> protocol = u16 ''http:'', hostname = u16 ''example.com'' \<rparr>"
        "[(u16 ''Server'', u16 ''nginx/1.2'')]" "u16 ''<form>''"]
  by simp

text \<open>
  C6. The specification says that with no security header in the response the metrics
  \<open>hsts\<close>, \<open>csp\<close>, \<open>xfo\<close> and \<open>xcto\<close> are false and the score is 100 less the seven
  deductions for the missing headers (and less 30 without HTTPS), not below 0. The
  metrics are as stated. The score is not: the analyzer has five more rules, which do
  not depend on a security header (mixed content, exposed e-mail addresses, forms that
  post over HTTP, and the \<open>Server\<close> and \<open>X-Powered-By\<close> headers). With the single header
  \<open>X-Powered-By: PHP\<close> on an HTTPS page the score is 52, not 54.

  As amended: with no security header, the four metrics are false and the score is the
  score of the specification less the deductions of those five rules.
\<close>

theorem C6_no_security_headers_score:
  assumes "no_security_headers hs"
  shows "metrics (analyzeSecurity parsedUrl hs html) =
           \<lparr> https = (protocol parsedUrl = u16 ''https:''), hsts = False, csp = False,
             xfo = False, xcto = False \<rparr> \<and>
         score (analyzeSecurity parsedUrl hs html) =
           missing_header_score parsedUrl - content_deductions parsedUrl hs html"
proof -
  note h = no_security_headers_lookups [OF assms]
  have m: "metrics (analyzeSecurity parsedUrl hs html) =
           \<lparr> https = (protocol parsedUrl = u16 ''https:''), hsts = False, csp = False,
             xfo = False, xcto = False \<rparr>"
    unfolding analyzeSecurity_body Let_def h metrics_finish by (simp add: truthy_def)
  have "score (analyzeSecurity parsedUrl hs html) =
      max 0 (min 100 (100 - (if protocol parsedUrl = u16 ''https:'' then 0 else 30)
        - 12 - 10 - 8 - 6 - 4 - 4 - 2 - content_deductions parsedUrl hs html))"
    unfolding analyzeSecurity_body Let_def h content_deductions_def
    by (simp add: finish_def sec_step_scores score_simps split: option.splits)
  moreover have "0 \<le> content_deductions parsedUrl hs html"
    "content_deductions parsedUrl hs html \<le> 19"
    unfolding content_deductions_def by (auto split: option.splits)
  ultimately show ?thesis
    using m by (auto simp: missing_header_score_def)
qed

theorem C6_witness:
  "no_security_headers [(u16 ''Server'', u16 ''nginx/1.2'')] \<and>
   score (analyzeSecurity \<lparr> protocol = u16 ''https:'', hostname = u16 ''example.com'' \<rparr>
            [(u16 ''Server'', u16 ''nginx/1.2'')] (u16 ''<form>'')) =
     missing_header_score \<lparr> protocol = u16 ''https:'', hostname = u16 ''example.com'' \<rparr> -
     content_deductions \<lparr> protocol = u16 ''https:'', hostname = u16 ''example.com'' \<rparr>
       [(u16 ''Server'', u16 ''nginx/1.2'')] (u16 ''<form>'')"
proof -
  have h: "no_security_headers [(u16 ''Server'', u16 ''nginx/1.2'')]"
    by (simp add: eval_defs)
  from C6_no_security_headers_score [OF h] h show ?thesis
    by blast
qed

text \<open>
  C6, the claim as the specification states it, at the header \<open>X-Powered-By: PHP\<close> on
  an HTTPS page with an empty body: no security header, a score of 52, and 54 by the
  specification.
\<close>

theorem C6_counterexample:
  "no_security_headers [(u16 ''X-Powered-By'', u16 ''PHP'')] \<and>
   score (analyzeSecurity \<lparr> protocol = u16 ''https:'', hostname = u16 ''example.com'' \<rparr>
            [(u16 ''X-Powered-By'', u16 ''PHP'')] []) = 52 \<and>
   missing_header_score \<lparr> protocol = u16 ''https:'', hostname = u16 ''example.com'' \<rparr> = 54"
  unfolding analyzeSecurity_body Let_def by (simp add: eval_defs Let_def)




text \<open>
  C8. The specification says that the form-label deduction is \<open>min(12, 3 * u)\<close>, where
  \<open>u\<close> is the number of inputs that have neither a label nor an \<open>aria-label\<close> or
  \<open>aria-labelledby\<close> attribute. The analyzer does not count those inputs: it subtracts
  the number of inputs with an ARIA attribute from the number of inputs without a label.
  An input that has both a label and an ARIA attribute is subtracted although it was
  never counted. On the page
  \<^verbatim>\<open><label for="a"><input id="a" aria-label="x"><input>\<close> the second input has
  neither, so \<open>u\<close> is 1 and the deduction should be 3; the analyzer compares 1 with 1 and
  deducts nothing (the score is 81, the same as without any input).
\<close>

theorem C8_labelled_aria_input_hides_unlabelled:
  "unlabeled_inputs regexp (u16 ''<label for='' @ [34] @ u16 ''a'' @ [34] @ u16 ''><input id='' @ [34] @ u16 ''a'' @ [34] @ u16 '' aria-label='' @ [34] @ u16 ''x'' @ [34] @ u16 ''><input>'') = Inr 1 \<and>
   filter_e (without_label regexp (u16 ''<label for='' @ [34] @ u16 ''a'' @ [34] @ u16 ''><input id='' @ [34] @ u16 ''a'' @ [34] @ u16 '' aria-label='' @ [34] @ u16 ''x'' @ [34] @ u16 ''><input>''))
     (textInputs (u16 ''<label for='' @ [34] @ u16 ''a'' @ [34] @ u16 ''><input id='' @ [34] @ u16 ''a'' @ [34] @ u16 '' aria-label='' @ [34] @ u16 ''x'' @ [34] @ u16 ''><input>'')) =
       Inr [u16 ''<input>''] \<and>
   inputsWithAriaLabel (u16 ''<label for='' @ [34] @ u16 ''a'' @ [34] @ u16 ''><input id='' @ [34] @ u16 ''a'' @ [34] @ u16 '' aria-label='' @ [34] @ u16 ''x'' @ [34] @ u16 ''><input>'') = 1 \<and>
   a11y_form_labels 1 1 st = st \<and>
   (case analyzeAccessibility regexp (u16 ''<label for='' @ [34] @ u16 ''a'' @ [34] @ u16 ''><input id='' @ [34] @ u16 ''a'' @ [34] @ u16 '' aria-label='' @ [34] @ u16 ''x'' @ [34] @ u16 ''><input>'') of
      Inl e \<Rightarrow> False
    | Inr r \<Rightarrow> score r = 81)"
proof -
  have "unlabeled_inputs regexp (u16 ''<label for='' @ [34] @ u16 ''a'' @ [34] @ u16 ''><input id='' @ [34] @ u16 ''a'' @ [34] @ u16 '' aria-label='' @ [34] @ u16 ''x'' @ [34] @ u16 ''><input>'') = Inr 1 \<and>
   filter_e (without_label regexp (u16 ''<label for='' @ [34] @ u16 ''a'' @ [34] @ u16 ''><input id='' @ [34] @ u16 ''a'' @ [34] @ u16 '' aria-label='' @ [34] @ u16 ''x'' @ [34] @ u16 ''><input>''))
     (textInputs (u16 ''<label for='' @ [34] @ u16 ''a'' @ [34] @ u16 ''><input id='' @ [34] @ u16 ''a'' @ [34] @ u16 '' aria-label='' @ [34] @ u16 ''x'' @ [34] @ u16 ''><input>'')) =
       Inr [u16 ''<input>''] \<and>
   inputsWithAriaLabel (u16 ''<label for='' @ [34] @ u16 ''a'' @ [34] @ u16 ''><input id='' @ [34] @ u16 ''a'' @ [34] @ u16 '' aria-label='' @ [34] @ u16 ''x'' @ [34] @ u16 ''><input>'') = 1"
    by (simp add: eval_defs Let_def)
  moreover have "a11y_form_labels 1 1 st = st"
    by (simp add: a11y_form_labels_def)
  moreover have
    "case analyzeAccessibility regexp (u16 ''<label for='' @ [34] @ u16 ''a'' @ [34] @ u16 ''><input id='' @ [34] @ u16 ''a'' @ [34] @ u16 '' aria-label='' @ [34] @ u16 ''x'' @ [34] @ u16 ''><input>'') of
      Inl e \<Rightarrow> False
    | Inr r \<Rightarrow> score r = 81"
    unfolding analyzeAccessibility_body Let_def by (simp add: eval_defs Let_def)
  ultimately show ?thesis by blast
qed

text \<open>
  C9. The specification says that every finding in \<open>details\<close> has a \<open>severity\<close> field
  with one of the values success, info, warning and critical, and that \<open>details\<close> keeps
  the order in which the findings were inserted. The analyzers keep two lists: a success
  finding is pushed to \<open>details\<close> as \<open>{ type: 'success', message }\<close>, with no
  \<open>severity\<close> field, and every other finding to \<open>issues\<close> as \<open>{ severity, message }\<close>; the
  result is \<open>[...details, ...issues]\<close>.

  As amended: of the findings that a run inserts, each is a success finding, with
  \<open>type\<close> success and no \<open>severity\<close>, or an issue finding, with a \<open>severity\<close> of info,
  warning or critical; and the \<open>details\<close> of the result are the success findings among
  them followed by the issue findings among them, each of the two groups in the order
  of insertion. Here \<open>acc_log\<close> of the locals of a run is the list of the findings that the
  run inserted, in the order of their insertion. (The performance and mobile analyzers
  return on every input; for the accessibility analyzer: whenever it returns.)
\<close>

theorem C9_details_in_two_groups_in_insertion_order:
  "(\<exists>st r. perf_locals new_URL responseTime html (extractResources html) = Inr st \<and>
        analyzePerformance new_URL responseTime html (extractResources html) = Inr r \<and>
        two_groups_in_order (acc_log st) (details r)) \<and>
   two_groups_in_order (acc_log (seo_locals html)) (details (analyzeSEO html parsedUrl)) \<and>
   two_groups_in_order (acc_log (sec_locals parsedUrl hs html))
     (details (analyzeSecurity parsedUrl hs html)) \<and>
   (\<exists>st r. mob_locals html = Inr st \<and> analyzeMobile html = Inr r \<and>
        two_groups_in_order (acc_log st) (details r)) \<and>
   (case analyzeAccessibility regexp html of
      Inl e \<Rightarrow> True
    | Inr r \<Rightarrow> (\<exists>st. a11y_locals regexp html = Inr st \<and>
                    two_groups_in_order (acc_log st) (details r)))"
proof -
  obtain rp where "analyzePerformance new_URL responseTime html (extractResources html) = Inr rp"
    using analyzePerformance_total by blast
  then have p: "\<exists>st r. perf_locals new_URL responseTime html (extractResources html) = Inr st \<and>
        analyzePerformance new_URL responseTime html (extractResources html) = Inr r \<and>
        two_groups_in_order (acc_log st) (details r)"
    unfolding analyzePerformance_def
    by (auto dest!: returned_locals intro!: grows_start_two_groups perf_locals_grows)
  obtain rm where "analyzeMobile html = Inr rm"
    using analyzeMobile_total by blast
  then have m: "\<exists>st r. mob_locals html = Inr st \<and> analyzeMobile html = Inr r \<and>
        two_groups_in_order (acc_log st) (details r)"
    unfolding analyzeMobile_def
    by (auto dest!: returned_locals intro!: grows_start_two_groups mob_locals_grows)
  have s: "two_groups_in_order (acc_log (seo_locals html)) (details (analyzeSEO html parsedUrl))"
    unfolding analyzeSEO_def by (intro grows_start_two_groups seo_locals_grows)
  have c: "two_groups_in_order (acc_log (sec_locals parsedUrl hs html))
     (details (analyzeSecurity parsedUrl hs html))"
    unfolding analyzeSecurity_def by (intro grows_start_two_groups sec_locals_grows)
  have a: "case analyzeAccessibility regexp html of
      Inl e \<Rightarrow> True
    | Inr r \<Rightarrow> (\<exists>st. a11y_locals regexp html = Inr st \<and>
                    two_groups_in_order (acc_log st) (details r))"
  proof (cases "analyzeAccessibility regexp html")
    case (Inl e)
    then show ?thesis by simp
  next
    case (Inr r)
    then have "\<exists>st. a11y_locals regexp html = Inr st \<and>
                    two_groups_in_order (acc_log st) (details r)"
      unfolding analyzeAccessibility_def
      by (auto dest!: returned_locals intro!: grows_start_two_groups a11y_locals_grows)
    with Inr show ?thesis by simp
  qed
  from p s c m a show ?thesis by (intro conjI)
qed

text \<open>
  C9, the claim as the specification states it, at an HTTP page with the header
  \<open>Strict-Transport-Security: max-age=31536000; includeSubDomains\<close>: the security
  analyzer inserts the critical HTTPS finding first and the HSTS success finding second;
  the result lists them the other way round, and its first finding has no \<open>severity\<close>
  field.
\<close>

theorem C9_counterexample:
  "take 2 (details (analyzeSecurity \<lparr> protocol = u16 ''http:'', hostname = u16 ''example.com'' \<rparr>
        [(u16 ''Strict-Transport-Security'', u16 ''max-age=31536000; includeSubDomains'')] [])) =
     [With_type Success (u16 ''HSTS er korrekt konfigurert''),
      With_severity Critical (u16 ''Siden bruker ikke HTTPS'')] \<and>
   take 2 (acc_log (sec_locals \<lparr> protocol = u16 ''http:'', hostname = u16 ''example.com'' \<rparr>
        [(u16 ''Strict-Transport-Security'', u16 ''max-age=31536000; includeSubDomains'')] [])) =
     [With_severity Critical (u16 ''Siden bruker ikke HTTPS''),
      With_type Success (u16 ''HSTS er korrekt konfigurert'')] \<and>
   \<not> has_severity (With_type Success (u16 ''HSTS er korrekt konfigurert''))"
  unfolding analyzeSecurity_def sec_locals_def Let_def by (simp add: eval_defs Let_def)




end
